theory Spec2Isabelle
  imports Main
begin

section \<open>Python strings and slices\<close>

text \<open>
  A Python \<open>str\<close> is modelled as a \<open>string\<close>: one \<open>char\<close> stands for one character of
  the text, and \<open>length\<close> is Python's \<open>len\<close>. Python integers are \<open>int\<close>; a slice bound
  may be negative, in which case it counts from the end and is clipped at the start.
\<close>

abbreviation newline :: char where
  "newline \<equiv> CHR 0x0A"

text \<open>\<open>s[:n]\<close>\<close>

definition slice_to :: "'a list \<Rightarrow> int \<Rightarrow> 'a list" where
  "slice_to s n = (if n < 0 then take (nat (int (length s) + n)) s else take (nat n) s)"

text \<open>\<open>s[n:]\<close>\<close>

definition slice_from :: "'a list \<Rightarrow> int \<Rightarrow> 'a list" where
  "slice_from s n = (if n < 0 then drop (nat (int (length s) + n)) s else drop (nat n) s)"

text \<open>\<open>s.rfind(c)\<close> for a single character \<open>c\<close>: the highest index of \<open>c\<close>, or \<open>-1\<close>.\<close>

primrec rfind :: "string \<Rightarrow> char \<Rightarrow> int" where
  "rfind [] c = - 1"
| "rfind (x # xs) c =
     (let r = rfind xs c in if 0 \<le> r then r + 1 else if x = c then 0 else - 1)"

text \<open>\<open>s.lstrip(chars)\<close>\<close>

definition lstrip :: "string \<Rightarrow> string \<Rightarrow> string" where
  "lstrip s chars = dropWhile (\<lambda>c. c \<in> set chars) s"

section \<open>The message chunker\<close>

text \<open>
  A block is the dictionary
  \<open>{"type": "section", "text": {"type": "mrkdwn", "text": chunk}}\<close>.
\<close>

record text_object =
  obj_type :: string
  obj_text :: string

record block =
  block_type :: string
  block_text :: text_object

definition section_block :: "string \<Rightarrow> block" where
  "section_block chunk =
     \<lparr>block_type = ''section'', block_text = \<lparr>obj_type = ''mrkdwn'', obj_text = chunk\<rparr>\<rparr>"

definition chunk_of :: "block \<Rightarrow> string" where
  "chunk_of b = obj_text (block_text b)"

text \<open>
  Lines 85 to 88 of the source: the candidate \<open>text[:max_len]\<close>, cut at its last newline
  when \<open>rfind\<close> returns a position greater than 0.
\<close>

definition next_chunk :: "string \<Rightarrow> int \<Rightarrow> string" where
  "next_chunk text max_len =
     (let chunk = slice_to text max_len;
          last_newline = rfind chunk newline
      in if last_newline > 0 then slice_to chunk last_newline else chunk)"

text \<open>Line 96: the text left for the next iteration.\<close>

definition remaining :: "string \<Rightarrow> string \<Rightarrow> string" where
  "remaining text chunk = lstrip (slice_from text (int (length chunk))) [newline]"

text \<open>
  The \<open>while text:\<close> loop. It need not terminate (with \<open>max_len = 0\<close> the chunk is empty
  and nothing is consumed), so the loop is a partial function: \<open>None\<close> means that the
  loop runs forever.
\<close>

partial_function (option) split_loop :: "string \<Rightarrow> int \<Rightarrow> block list \<Rightarrow> block list option" where
  "split_loop text max_len blocks =
     (if text = [] then Some blocks
      else let chunk = next_chunk text max_len
           in split_loop (remaining text chunk) max_len (blocks @ [section_block chunk]))"

declare split_loop.simps [code]

definition split_text_for_blocks :: "string \<Rightarrow> int \<Rightarrow> block list option" where
  "split_text_for_blocks text max_len = split_loop text max_len []"

text \<open>\<open>sep.join(xs)\<close>\<close>

fun join :: "string \<Rightarrow> string list \<Rightarrow> string" where
  "join sep [] = []"
| "join sep [x] = x"
| "join sep (x # y # ys) = x @ sep @ join sep (y # ys)"

text \<open>
  \<open>c.isspace()\<close>, the characters that \<open>str.strip()\<close> removes: tab, line feed, vertical tab,
  form feed, carriage return, the separators \<open>0x1C\<close> to \<open>0x1F\<close>, space, next line (\<open>0x85\<close>)
  and no-break space (\<open>0xA0\<close>).
\<close>

definition isspace :: "char \<Rightarrow> bool" where
  "isspace c = ((of_char c :: nat) \<in> {9, 10, 11, 12, 13, 28, 29, 30, 31, 32, 133, 160})"

text \<open>
  The sequence of chunks that the iterations of the loop emit, as a relation between the
  text at loop entry and the chunks appended from there on.
\<close>

inductive chunking :: "int \<Rightarrow> string \<Rightarrow> string list \<Rightarrow> bool" where
  finished: "chunking L [] []"
| iterate: "t \<noteq> [] \<Longrightarrow> chunking L (remaining t (next_chunk t L)) cs
         \<Longrightarrow> chunking L t (next_chunk t L # cs)"

section \<open>Python values as text\<close>

text \<open>\<open>str(n)\<close> for an integer, as the f-strings of the source use it.\<close>

definition digit_char :: "nat \<Rightarrow> char" where
  "digit_char d = char_of (48 + d)"

fun str_nat :: "nat \<Rightarrow> string" where
  "str_nat n = (if n < 10 then [digit_char n] else str_nat (n div 10) @ [digit_char (n mod 10)])"

definition str_int :: "int \<Rightarrow> string" where
  "str_int i = (if i < 0 then ''-'' @ str_nat (nat (- i)) else str_nat (nat i))"

text \<open>\<open>str(v)\<close> for a value that is a string or \<open>None\<close>.\<close>

definition str_opt :: "string option \<Rightarrow> string" where
  "str_opt v = (case v of None \<Rightarrow> ''None'' | Some s \<Rightarrow> s)"

text \<open>\<open>s.strip()\<close>\<close>

definition strip :: "string \<Rightarrow> string" where
  "strip s = rev (dropWhile isspace (rev (dropWhile isspace s)))"

text \<open>Truthiness and \<open>a or b\<close> for values that are a string or \<open>None\<close>.\<close>

definition truthy :: "string option \<Rightarrow> bool" where
  "truthy v = (case v of None \<Rightarrow> False | Some s \<Rightarrow> s \<noteq> [])"

definition py_or :: "string option \<Rightarrow> string option \<Rightarrow> string option" where
  "py_or a b = (if truthy a then a else b)"

section \<open>Configuration, services and effects\<close>

text \<open>
  Every exception that can leave a function of the program is a value of \<open>error\<close>.
\<close>

datatype error =
    KeyError string
  | FetchError
  | AttributeError
  | SummarizeError
  | IndexError
  | ValueError
  | PostError

text \<open>
  \<open>os.environ\<close> is a map from names to values. \<open>load_dotenv()\<close> adds the entries of the
  \<open>.env\<close> file that the process environment does not define already.
\<close>

type_synonym environ = "string \<rightharpoonup> string"

definition load_dotenv :: "environ \<Rightarrow> environ \<Rightarrow> environ" where
  "load_dotenv dotenv env = dotenv ++ env"

text \<open>\<open>os.environ[key]\<close> raises \<open>KeyError\<close> on a missing key; \<open>os.environ.get(key)\<close> is \<open>env key\<close>.\<close>

definition environ_item :: "environ \<Rightarrow> string \<Rightarrow> error + string" where
  "environ_item env key = (case env key of None \<Rightarrow> Inl (KeyError key) | Some v \<Rightarrow> Inr v)"

record config =
  SLACK_BOT_TOKEN :: string
  PRODUCTBOARD_API_TOKEN :: string
  PRODUCT_TEAM_CHANNEL :: "string option"
  OPENAI_API_KEY :: string

abbreviation PRODUCTBOARD_API_NOTES_URL :: string where
  "PRODUCTBOARD_API_NOTES_URL \<equiv> ''https://api.productboard.com/notes''"

abbreviation PRODUCTBOARD_API_VERSION :: string where
  "PRODUCTBOARD_API_VERSION \<equiv> ''1''"

text \<open>Lines 18 to 25: the module-level reads, in the order of the source.\<close>

definition load_config :: "environ \<Rightarrow> error + config" where
  "load_config env =
     (case environ_item env ''SLACK_BOT_TOKEN'' of
        Inl e \<Rightarrow> Inl e
      | Inr slack_bot_token \<Rightarrow>
     (case environ_item env ''PRODUCTBOARD_API_TOKEN'' of
        Inl e \<Rightarrow> Inl e
      | Inr productboard_api_token \<Rightarrow>
     (let product_team_channel = env ''PRODUCT_TEAM_CHANNEL''
      in case environ_item env ''OPENAI_API_KEY'' of
           Inl e \<Rightarrow> Inl e
         | Inr openai_api_key \<Rightarrow>
             Inr \<lparr>SLACK_BOT_TOKEN = slack_bot_token,
                  PRODUCTBOARD_API_TOKEN = productboard_api_token,
                  PRODUCT_TEAM_CHANNEL = product_team_channel,
                  OPENAI_API_KEY = openai_api_key\<rparr>)))"

text \<open>
  A note is a JSON object read through \<open>note.get(key)\<close>, which is \<open>None\<close> for a missing key
  and for a null value: a map from keys to strings.
\<close>

type_synonym feedback_note = "string \<rightharpoonup> string"

text \<open>The GET request of the fetcher: URL, headers and query parameters.\<close>

record request =
  url :: string
  authorization :: string
  content_type :: string
  x_version :: string
  pageLimit :: int
  pageOffset :: int
  last_param :: string

text \<open>
  What the feedback API call gives: \<open>requests.get\<close> or \<open>raise_for_status\<close> raises; the body
  cannot be read as a JSON object with a list of notes under \<open>data\<close>, so that a later line
  raises; or the body is a JSON object whose \<open>data\<close> entry is a list of notes or is missing.
\<close>

datatype reply = RequestFailed | BadBody | Json "feedback_note list option"

text \<open>
  The completion call raises or returns the message contents of its choices (a content
  may be \<open>None\<close>).
\<close>

datatype completion = CompletionFailed | Choices "string option list"

text \<open>
  A \<open>SlackApiError\<close> carries the response of the provider, and the handler of line 109
  reads it with \<open>e.response['error']\<close>. The messaging client attaches one of three
  things: a response with a parsed body, whose subscript is the entry of the body or
  \<open>None\<close> when the body has no such entry; a response without a parsed body, whose
  subscript raises \<open>ValueError\<close>; or, when the body of the reply is not JSON, the raw
  dictionary of status, headers and body, which has no \<open>error\<close> key, so that the subscript
  raises \<open>KeyError\<close>.
\<close>

datatype slack_response = ParsedBody "string option" | EmptyBody | RawResponse

text \<open>\<open>response['error']\<close>\<close>

definition response_error :: "slack_response \<Rightarrow> error + string option" where
  "response_error response =
     (case response of
        ParsedBody entry \<Rightarrow> Inr entry
      | EmptyBody \<Rightarrow> Inl ValueError
      | RawResponse \<Rightarrow> Inl (KeyError ''error''))"

text \<open>
  The post call succeeds, raises \<open>SlackApiError\<close> with a response, or raises another
  exception.
\<close>

datatype post_result = PostOk | SlackApiError slack_response | PostFailed

text \<open>
  The three remote services are functions on an outside world \<open>'w\<close>, which they may
  change. The program state is that world and the trace of everything the program did
  to it or logged, in order.
\<close>

record 'w services =
  http_get :: "'w \<Rightarrow> request \<Rightarrow> reply \<times> 'w"
  chat_completions_create :: "'w \<Rightarrow> string \<Rightarrow> string \<Rightarrow> completion \<times> 'w"
  chat_postMessage :: "'w \<Rightarrow> string option \<Rightarrow> block list \<Rightarrow> post_result \<times> 'w"

datatype event =
    HttpGet request
  | ChatCompletion string string
  | ChatPostMessage "string option" "block list"
  | LogInfo string
  | LogWarning string
  | LogError string

record 'w state =
  world :: 'w
  trace :: "event list"

definition emit :: "event \<Rightarrow> 'w state \<Rightarrow> 'w state" where
  "emit e s = s\<lparr>trace := trace s @ [e]\<rparr>"

section \<open>The feedback fetcher\<close>

definition notes_request :: "config \<Rightarrow> int \<Rightarrow> int \<Rightarrow> string \<Rightarrow> request" where
  "notes_request cfg page_limit page_offset lookback =
     \<lparr>url = PRODUCTBOARD_API_NOTES_URL,
      authorization = ''Bearer '' @ PRODUCTBOARD_API_TOKEN cfg,
      content_type = ''application/json'',
      x_version = PRODUCTBOARD_API_VERSION,
      pageLimit = page_limit,
      pageOffset = page_offset,
      last_param = lookback\<rparr>"

text \<open>
  The \<open>while True:\<close> loop of lines 39 to 52, with \<open>page_limit = 100\<close>. It runs for as long
  as the source keeps returning full pages, so it is a partial function.
\<close>

partial_function (option) fetch_loop ::
  "'w services \<Rightarrow> config \<Rightarrow> int \<Rightarrow> feedback_note list \<Rightarrow> int \<Rightarrow> 'w state
     \<Rightarrow> ((error + feedback_note list) \<times> 'w state) option" where
  "fetch_loop svc cfg days notes page_offset s =
     (let params = notes_request cfg 100 page_offset (str_int days @ ''d'');
          (response, w) = http_get svc (world s) params;
          s1 = emit (HttpGet params) (s\<lparr>world := w\<rparr>)
      in case response of
           RequestFailed \<Rightarrow> Some (Inl FetchError, s1)
         | BadBody \<Rightarrow> Some (Inl FetchError, s1)
         | Json data \<Rightarrow>
             (let batch = (case data of None \<Rightarrow> [] | Some b \<Rightarrow> b);
                  notes1 = notes @ batch;
                  s2 = emit (LogInfo (''Fetched '' @ str_int (int (length batch))
                          @ '' notes (offset='' @ str_int page_offset @ '')'')) s1
              in if int (length batch) < 100 then Some (Inr notes1, s2)
                 else fetch_loop svc cfg days notes1 (page_offset + 100) s2))"

declare fetch_loop.simps [code]

definition fetch_feedback_notes ::
  "'w services \<Rightarrow> config \<Rightarrow> int \<Rightarrow> 'w state \<Rightarrow> ((error + feedback_note list) \<times> 'w state) option" where
  "fetch_feedback_notes svc cfg days s =
     (case fetch_loop svc cfg days [] 0 s of
        None \<Rightarrow> None
      | Some (Inl e, s1) \<Rightarrow> Some (Inl e, s1)
      | Some (Inr notes, s1) \<Rightarrow>
          Some (Inr notes,
                emit (LogInfo (''Total notes fetched for last '' @ str_int days @ '' days: ''
                        @ str_int (int (length notes)))) s1))"

section \<open>The prompt builder\<close>

definition prompt_intro :: "feedback_note list \<Rightarrow> string" where
  "prompt_intro notes =
     ''You are a product manager assistant analyzing '' @ str_int (int (length notes))
     @ '' pieces of product feedback from the last two weeks. ''
     @ ''Identify key themes, recurring problems, user emotions, and prioritized recommendations for product improvements.''
     @ [newline, newline]
     @ ''Feedback summary list:'' @ [newline]"

text \<open>
  Lines 66 and 67 for one note. \<open>strip\<close> exists on a string only; on \<open>None\<close> the attribute
  access raises.
\<close>

definition note_summary :: "feedback_note \<Rightarrow> error + string" where
  "note_summary note =
     (case py_or (py_or (note ''content'') (note ''title'')) (Some []) of
        None \<Rightarrow> Inl AttributeError
      | Some content \<Rightarrow> Inr (''- '' @ strip content))"

fun summaries_loop :: "feedback_note list \<Rightarrow> string list \<Rightarrow> error + string list" where
  "summaries_loop [] summaries = Inr summaries"
| "summaries_loop (note # notes) summaries =
     (case note_summary note of
        Inl e \<Rightarrow> Inl e
      | Inr line \<Rightarrow> summaries_loop notes (summaries @ [line]))"

definition prepare_analysis_prompt :: "feedback_note list \<Rightarrow> error + string" where
  "prepare_analysis_prompt notes =
     (case summaries_loop notes [] of
        Inl e \<Rightarrow> Inl e
      | Inr summaries \<Rightarrow> Inr (prompt_intro notes @ join [newline] summaries))"

section \<open>Summarizer, notifier and the run\<close>

definition analyze_trends_with_gpt ::
  "'w services \<Rightarrow> feedback_note list \<Rightarrow> 'w state \<Rightarrow> (error + string option) \<times> 'w state" where
  "analyze_trends_with_gpt svc notes s =
     (case prepare_analysis_prompt notes of
        Inl e \<Rightarrow> (Inl e, s)
      | Inr prompt \<Rightarrow>
          (let s1 = emit (LogInfo ''Sending batch analysis prompt to GPT...'') s;
               (response, w) = chat_completions_create svc (world s1) ''gpt-4o'' prompt;
               s2 = emit (ChatCompletion ''gpt-4o'' prompt) (s1\<lparr>world := w\<rparr>)
           in case response of
                CompletionFailed \<Rightarrow> (Inl SummarizeError, s2)
              | Choices [] \<Rightarrow> (Inl IndexError, s2)
              | Choices (analysis # others) \<Rightarrow>
                  (Inr analysis, emit (LogInfo ''Received trend analysis from GPT.'') s2)))"

text \<open>
  \<open>post_analysis_to_slack\<close> calls the chunker with the default \<open>max_len = 2900\<close>. The
  analysis may be \<open>None\<close>, which is false in \<open>while text:\<close>, so that no block is made.
  The handler of \<open>SlackApiError\<close> builds its log line from \<open>e.response['error']\<close>; an
  exception of that subscript is raised inside the handler and leaves the function.
\<close>

definition post_analysis_to_slack ::
  "'w services \<Rightarrow> string option \<Rightarrow> string option \<Rightarrow> 'w state
     \<Rightarrow> ((error + unit) \<times> 'w state) option" where
  "post_analysis_to_slack svc channel_id analysis_text s =
     (case (case analysis_text of None \<Rightarrow> Some [] | Some t \<Rightarrow> split_text_for_blocks t 2900) of
        None \<Rightarrow> None
      | Some blocks \<Rightarrow>
          (let (result, w) = chat_postMessage svc (world s) channel_id blocks;
               s1 = emit (ChatPostMessage channel_id blocks) (s\<lparr>world := w\<rparr>)
           in case result of
                PostOk \<Rightarrow>
                  Some (Inr (), emit (LogInfo (''Posted formatted trend analysis to Slack channel ''
                                  @ str_opt channel_id)) s1)
              | SlackApiError response \<Rightarrow>
                  (case response_error response of
                     Inl e \<Rightarrow> Some (Inl e, s1)
                   | Inr detail \<Rightarrow>
                       Some (Inr (), emit (LogError (''Failed to post to Slack: ''
                                       @ str_opt detail)) s1))
              | PostFailed \<Rightarrow> Some (Inl PostError, s1)))"

definition main ::
  "'w services \<Rightarrow> config \<Rightarrow> 'w state \<Rightarrow> ((error + unit) \<times> 'w state) option" where
  "main svc cfg s =
     (case fetch_feedback_notes svc cfg 14 s of
        None \<Rightarrow> None
      | Some (Inl e, s1) \<Rightarrow> Some (Inl e, s1)
      | Some (Inr notes, s1) \<Rightarrow>
          if notes = [] then
            Some (Inr (), emit (LogWarning ''No feedback notes found for analysis. Exiting.'') s1)
          else
            (case analyze_trends_with_gpt svc notes s1 of
               (Inl e, s2) \<Rightarrow> Some (Inl e, s2)
             | (Inr analysis, s2) \<Rightarrow>
                 post_analysis_to_slack svc (PRODUCT_TEAM_CHANNEL cfg) analysis s2))"

text \<open>
  A run of the script: the module level reads the configuration, then \<open>main()\<close> runs. An
  exception that leaves the run ends the process with status 1, a normal return with 0.
\<close>

definition program ::
  "'w services \<Rightarrow> environ \<Rightarrow> environ \<Rightarrow> 'w \<Rightarrow> ((error + unit) \<times> 'w state) option" where
  "program svc dotenv env w =
     (case load_config (load_dotenv dotenv env) of
        Inl e \<Rightarrow> Some (Inl e, \<lparr>world = w, trace = []\<rparr>)
      | Inr cfg \<Rightarrow> main svc cfg \<lparr>world = w, trace = []\<rparr>)"

definition exit_status :: "error + unit \<Rightarrow> int" where
  "exit_status r = (case r of Inl e \<Rightarrow> 1 | Inr u \<Rightarrow> 0)"

text \<open>Which events are calls to the completion service and to the messaging platform.\<close>

fun is_summarization_call :: "event \<Rightarrow> bool" where
  "is_summarization_call (ChatCompletion m p) = True"
| "is_summarization_call e = False"

fun is_notification_call :: "event \<Rightarrow> bool" where
  "is_notification_call (ChatPostMessage c b) = True"
| "is_notification_call e = False"

text \<open>
  A test double for the three services. Its world is the list of pages still to be
  served: each GET returns the next page whatever the request says, and fails once the
  pages are used up. The completion and the post give fixed results.
\<close>

definition scripted :: "completion \<Rightarrow> post_result \<Rightarrow> (feedback_note list list) services" where
  "scripted c p =
     \<lparr>http_get = (\<lambda>w r. case w of [] \<Rightarrow> (RequestFailed, []) | page # rest \<Rightarrow> (Json (Some page), rest)),
      chat_completions_create = (\<lambda>w model prompt. (c, w)),
      chat_postMessage = (\<lambda>w channel blocks. (p, w))\<rparr>"

text \<open>The GET requests of a trace, in the order in which they were issued.\<close>

fun requests_of :: "event list \<Rightarrow> request list" where
  "requests_of [] = []"
| "requests_of (HttpGet r # es) = r # requests_of es"
| "requests_of (e # es) = requests_of es"

section \<open>Properties of the chunker\<close>

lemma split_loop_chunking:
  assumes "split_loop t L acc = Some bs"
  shows "\<exists>cs. bs = acc @ map section_block cs \<and> chunking L t cs"
  using assms
proof (induction t L acc bs rule: split_loop.raw_induct[rotated 1, consumes 1])
  case (1 f t max_len blocks res)
  show ?case
  proof (cases "t = []")
    case True
    with 1(2) show ?thesis by (auto intro: chunking.finished)
  next
    case False
    with 1(2) have "f (remaining t (next_chunk t max_len)) max_len
        (blocks @ [section_block (next_chunk t max_len)]) = Some res"
      by (simp add: Let_def)
    from 1(1)[OF this] obtain cs where
      "res = (blocks @ [section_block (next_chunk t max_len)]) @ map section_block cs"
      "chunking max_len (remaining t (next_chunk t max_len)) cs" by blast
    with False show ?thesis
      by (intro exI[of _ "next_chunk t max_len # cs"]) (auto intro: chunking.iterate)
  qed
qed

lemma rfind_lt: "rfind s c < int (length s)"
  by (induction s) (auto simp: Let_def)

lemma rfind_ge: "- 1 \<le> rfind s c"
  by (induction s) (auto simp: Let_def)

lemma rfind_neg_iff: "rfind s c < 0 \<longleftrightarrow> c \<notin> set s"
  by (induction s) (auto simp: Let_def)

lemma rfind_nth: "0 \<le> rfind s c \<Longrightarrow> s ! nat (rfind s c) = c"
proof (induction s)
  case Nil then show ?case by simp
next
  case (Cons x xs)
  show ?case
  proof (cases "0 \<le> rfind xs c")
    case True
    then have "nat (rfind xs c + 1) = Suc (nat (rfind xs c))" by simp
    with True Cons.IH show ?thesis by (simp add: Let_def)
  next
    case False
    with Cons.prems show ?thesis by (auto simp: Let_def split: if_splits)
  qed
qed

lemma rfind_last: "i < length s \<Longrightarrow> s ! i = c \<Longrightarrow> int i \<le> rfind s c"
proof (induction s arbitrary: i)
  case Nil then show ?case by simp
next
  case (Cons x xs)
  show ?case
  proof (cases i)
    case 0
    with Cons.prems show ?thesis using rfind_ge[of xs c] by (auto simp: Let_def)
  next
    case (Suc j)
    with Cons.prems have "int j \<le> rfind xs c" by (intro Cons.IH) auto
    with Suc show ?thesis by (auto simp: Let_def)
  qed
qed

lemma length_slice_to: "0 \<le> n \<Longrightarrow> int (length (slice_to s n)) \<le> n"
  by (simp add: slice_to_def)

lemma take_length_take: "take (length (take k s)) s = take k s"
  by (cases "k \<le> length s") (simp_all add: min_def)

lemma slice_to_prefix: "slice_to s n = take (length (slice_to s n)) s"
  by (simp add: slice_to_def take_length_take del: length_take)

lemma next_chunk_cases:
  "next_chunk t L = (if 0 < rfind (slice_to t L) newline
     then take (nat (rfind (slice_to t L) newline)) (slice_to t L) else slice_to t L)"
  by (simp add: next_chunk_def Let_def slice_to_def[of "slice_to t L"])

lemma length_next_chunk_le: "length (next_chunk t L) \<le> length (slice_to t L)"
  by (simp add: next_chunk_cases)

lemma next_chunk_bound: "0 \<le> L \<Longrightarrow> int (length (next_chunk t L)) \<le> L"
  using length_next_chunk_le[of t L] length_slice_to[of L t] by linarith

lemma next_chunk_prefix: "next_chunk t L = take (length (next_chunk t L)) t"
proof -
  have "\<exists>k. next_chunk t L = take k t"
    by (auto simp: next_chunk_cases slice_to_def[of t])
  then obtain k where k: "next_chunk t L = take k t" ..
  show ?thesis by (subst (2) k, subst k) (simp add: min_def)
qed

lemma text_decomp:
  "t = next_chunk t L @ takeWhile (\<lambda>c. c = newline) (drop (length (next_chunk t L)) t)
      @ remaining t (next_chunk t L)"
proof -
  have "t = take (length (next_chunk t L)) t @ drop (length (next_chunk t L)) t"
    by simp
  then show ?thesis
    using next_chunk_prefix[of t L]
    by (simp add: remaining_def lstrip_def slice_from_def)
qed

lemma next_chunk_nonempty:
  assumes "t \<noteq> []" "1 \<le> L"
  shows "next_chunk t L \<noteq> []"
proof -
  from assms have c: "slice_to t L \<noteq> []" by (auto simp: slice_to_def)
  show ?thesis
  proof (cases "0 < rfind (slice_to t L) newline")
    case True
    then show ?thesis using c by (simp add: next_chunk_cases)
  next
    case False
    then show ?thesis using c by (simp add: next_chunk_cases)
  qed
qed

lemma length_remaining_le:
  "length (remaining t chunk) \<le> length t - length chunk"
proof -
  have "length (dropWhile (\<lambda>c. c \<in> set [newline]) (drop (length chunk) t))
        \<le> length (drop (length chunk) t)"
    by (rule length_dropWhile_le)
  then show ?thesis by (simp add: remaining_def lstrip_def slice_from_def)
qed

lemma remaining_shorter:
  assumes "t \<noteq> []" "1 \<le> L"
  shows "length (remaining t (next_chunk t L)) < length t"
  using next_chunk_nonempty[OF assms] length_remaining_le[of t "next_chunk t L"] assms(1)
  by (cases "next_chunk t L"; cases t) auto

lemma split_loop_terminates:
  "1 \<le> L \<Longrightarrow> \<exists>bs. split_loop t L acc = Some bs"
proof (induction "length t" arbitrary: t acc rule: less_induct)
  case less
  show ?case
  proof (cases "t = []")
    case True
    then show ?thesis by (subst split_loop.simps) simp
  next
    case False
    from remaining_shorter[OF False less.prems]
    have "\<exists>bs. split_loop (remaining t (next_chunk t L)) L
             (acc @ [section_block (next_chunk t L)]) = Some bs"
      by (rule less.hyps) (rule less.prems)
    with False show ?thesis by (subst split_loop.simps) (simp add: Let_def)
  qed
qed


lemma chunking_bound:
  "chunking L t cs \<Longrightarrow> 0 \<le> L \<Longrightarrow> \<forall>c\<in>set cs. int (length c) \<le> L"
  by (induction rule: chunking.induct) (simp_all add: next_chunk_bound)

lemma chunking_nonempty:
  "chunking L t cs \<Longrightarrow> 1 \<le> L \<Longrightarrow> \<forall>c\<in>set cs. c \<noteq> []"
  by (induction rule: chunking.induct) (simp_all add: next_chunk_nonempty)

lemma filter_takeWhile_newline:
  "filter (\<lambda>c. c \<noteq> newline) (takeWhile (\<lambda>c. c = newline) xs) = []"
  by (induction xs) simp_all

lemma chunking_content:
  "chunking L t cs \<Longrightarrow> filter (\<lambda>c. c \<noteq> newline) (concat cs) = filter (\<lambda>c. c \<noteq> newline) t"
proof (induction rule: chunking.induct)
  case (finished L)
  show ?case by simp
next
  case (iterate t L cs)
  have "filter (\<lambda>c. c \<noteq> newline) t =
        filter (\<lambda>c. c \<noteq> newline) (next_chunk t L @
          takeWhile (\<lambda>c. c = newline) (drop (length (next_chunk t L)) t) @
          remaining t (next_chunk t L))"
    using text_decomp[of t L] by simp
  also have "\<dots> = filter (\<lambda>c. c \<noteq> newline) (next_chunk t L) @
        filter (\<lambda>c. c \<noteq> newline) (remaining t (next_chunk t L))"
    by (simp add: filter_takeWhile_newline)
  finally show ?case using iterate.IH by simp
qed

lemma filter_join_newline:
  "filter (\<lambda>c. c \<noteq> newline) (join [newline] cs) = filter (\<lambda>c. c \<noteq> newline) (concat cs)"
  by (induction "[newline]" cs rule: join.induct) simp_all

lemma isspace_newline: "isspace newline"
  by (simp add: isspace_def)

lemma filter_nonspace_via_newline:
  "filter (\<lambda>c. \<not> isspace c) xs = filter (\<lambda>c. \<not> isspace c) (filter (\<lambda>c. c \<noteq> newline) xs)"
  by (induction xs) (auto simp: isspace_newline)

lemma chunk_of_section: "chunk_of (section_block c) = c"
  by (simp add: chunk_of_def section_block_def)

lemma map_chunk_of_section: "map chunk_of (map section_block cs) = cs"
  by (induction cs) (simp_all add: chunk_of_section)

lemma split_text_chunking:
  assumes "split_text_for_blocks t L = Some bs"
  shows "bs = map section_block (map chunk_of bs) \<and> chunking L t (map chunk_of bs)"
proof -
  from assms obtain cs where "bs = map section_block cs" "chunking L t cs"
    using split_loop_chunking[of t L "[]" bs] by (auto simp: split_text_for_blocks_def)
  then show ?thesis by (simp only: map_chunk_of_section simp_thms)
qed

lemma split_text_terminates: "1 \<le> L \<Longrightarrow> \<exists>bs. split_text_for_blocks t L = Some bs"
  unfolding split_text_for_blocks_def by (rule split_loop_terminates)

lemma split_loop_unfold:
  "t \<noteq> [] \<Longrightarrow> split_loop t L acc =
     split_loop (remaining t (next_chunk t L)) L (acc @ [section_block (next_chunk t L)])"
  by (subst split_loop.simps) (simp add: Let_def)

lemma split_loop_empty: "split_loop [] L acc = Some acc"
  by (subst split_loop.simps) simp

text \<open>
  Claim C1. For every input text and every maximum chunk length \<open>L\<close>, every chunk that
  \<open>split_text_for_blocks\<close> produces has length at most \<open>L\<close>: the chunk that an
  iteration emits, and so every chunk of the returned list. A maximum chunk length is a
  length, that is \<open>L \<ge> 0\<close>; for \<open>L \<ge> 1\<close>, as for the default 2900 of the only call, the
  function does return a list.
\<close>

theorem chunk_length_bound:
  "0 \<le> L \<Longrightarrow>
     (t \<noteq> [] \<longrightarrow> int (length (next_chunk t L)) \<le> L) \<and>
     (\<forall>bs. split_text_for_blocks t L = Some bs \<longrightarrow> (\<forall>b\<in>set bs. int (length (chunk_of b)) \<le> L)) \<and>
     (1 \<le> L \<longrightarrow> (\<exists>bs. split_text_for_blocks t L = Some bs))"
proof (intro conjI allI impI)
  assume "0 \<le> L"
  then show "int (length (next_chunk t L)) \<le> L" by (rule next_chunk_bound)
next
  fix bs
  assume L: "0 \<le> L" and bs: "split_text_for_blocks t L = Some bs"
  from split_text_chunking[OF bs] have "chunking L t (map chunk_of bs)" ..
  from chunking_bound[OF this L] show "\<forall>b\<in>set bs. int (length (chunk_of b)) \<le> L" by simp
next
  assume "1 \<le> L"
  then show "\<exists>bs. split_text_for_blocks t L = Some bs" by (rule split_text_terminates)
qed

text \<open>
  The text of \<open>ab\<close>, two newlines, \<open>cdefg\<close> and a newline is split with \<open>L = 4\<close> into
  \<open>ab\<close> with one newline, \<open>cdef\<close> and \<open>g\<close>.
\<close>

theorem chunk_length_bound_witness:
  "(0::int) \<le> 4 \<and> (1::int) \<le> 4 \<and>
   ''ab'' @ [newline, newline] @ ''cdefg'' @ [newline] \<noteq> [] \<and>
   int (length (next_chunk (''ab'' @ [newline, newline] @ ''cdefg'' @ [newline]) 4)) \<le> 4 \<and>
   split_text_for_blocks (''ab'' @ [newline, newline] @ ''cdefg'' @ [newline]) 4 =
     Some [section_block (''ab'' @ [newline]), section_block ''cdef'', section_block ''g''] \<and>
   int (length (chunk_of (section_block (''ab'' @ [newline])))) \<le> 4 \<and>
   int (length (chunk_of (section_block ''cdef''))) \<le> 4 \<and>
   int (length (chunk_of (section_block ''g''))) \<le> 4"
proof -
  have e: "split_text_for_blocks (''ab'' @ [newline, newline] @ ''cdefg'' @ [newline]) 4 =
     Some [section_block (''ab'' @ [newline]), section_block ''cdef'', section_block ''g'']"
    by code_simp
  from chunk_length_bound[of 4 "''ab'' @ [newline, newline] @ ''cdefg'' @ [newline]"] e
  show ?thesis by simp
qed

text \<open>
  Claim C2. Joining the chunks of the returned list with a single newline between
  consecutive chunks gives a string with the same non-whitespace characters, in the same
  order and number, as the input text. The function returns a list for every \<open>L \<ge> 1\<close>,
  so in particular for the default 2900.
\<close>

theorem chunks_reconstruct_text:
  "(\<forall>bs. split_text_for_blocks t L = Some bs \<longrightarrow>
      filter (\<lambda>c. \<not> isspace c) (join [newline] (map chunk_of bs)) =
      filter (\<lambda>c. \<not> isspace c) t) \<and>
   (1 \<le> L \<longrightarrow> (\<exists>bs. split_text_for_blocks t L = Some bs))"
proof (intro conjI allI impI)
  fix bs
  assume bs: "split_text_for_blocks t L = Some bs"
  from split_text_chunking[OF bs] have c: "chunking L t (map chunk_of bs)" ..
  have "filter (\<lambda>c. c \<noteq> newline) (join [newline] (map chunk_of bs)) =
        filter (\<lambda>c. c \<noteq> newline) t"
    using chunking_content[OF c] by (simp only: filter_join_newline)
  then show "filter (\<lambda>c. \<not> isspace c) (join [newline] (map chunk_of bs)) =
      filter (\<lambda>c. \<not> isspace c) t"
    using filter_nonspace_via_newline[of "join [newline] (map chunk_of bs)"]
      filter_nonspace_via_newline[of t] by simp
next
  assume "1 \<le> L"
  then show "\<exists>bs. split_text_for_blocks t L = Some bs" by (rule split_text_terminates)
qed

text \<open>
  The text of \<open>a b\<close>, two newlines, \<open>cdefg\<close> and a newline, with \<open>L = 4\<close>: the chunks are
  \<open>a b\<close>, \<open>cdef\<close> and \<open>g\<close>, and the non-whitespace content is \<open>abcdefg\<close>
  on both sides.
\<close>

theorem chunks_reconstruct_text_witness:
  "(1::int) \<le> 4 \<and>
   split_text_for_blocks (''a b'' @ [newline, newline] @ ''cdefg'' @ [newline]) 4 =
     Some [section_block ''a b'', section_block ''cdef'', section_block ''g''] \<and>
   filter (\<lambda>c. \<not> isspace c)
     (join [newline] (map chunk_of
        [section_block ''a b'', section_block ''cdef'', section_block ''g''])) =
   filter (\<lambda>c. \<not> isspace c) (''a b'' @ [newline, newline] @ ''cdefg'' @ [newline]) \<and>
   filter (\<lambda>c. \<not> isspace c) (''a b'' @ [newline, newline] @ ''cdefg'' @ [newline]) = ''abcdefg''"
proof -
  have e: "split_text_for_blocks (''a b'' @ [newline, newline] @ ''cdefg'' @ [newline]) 4 =
     Some [section_block ''a b'', section_block ''cdef'', section_block ''g'']"
    by code_simp
  have f: "filter (\<lambda>c. \<not> isspace c) (''a b'' @ [newline, newline] @ ''cdefg'' @ [newline]) = ''abcdefg''"
    by (simp add: isspace_def)
  from chunks_reconstruct_text[of "''a b'' @ [newline, newline] @ ''cdefg'' @ [newline]" 4] e f
  show ?thesis by simp
qed

text \<open>
  Claim C9. For every text and every \<open>L \<ge> 1\<close> the chunking loop terminates: the function
  returns a list, because every iteration on a non-empty text leaves a strictly shorter
  text. The loop exits exactly on the empty text: there it returns the blocks collected so
  far, and on a non-empty text it runs one more iteration.
\<close>

theorem chunking_loop_terminates:
  "1 \<le> L \<Longrightarrow>
     (\<exists>bs. split_text_for_blocks t L = Some bs) \<and>
     (\<exists>bs. split_loop t L acc = Some bs) \<and>
     (t \<noteq> [] \<longrightarrow> length (remaining t (next_chunk t L)) < length t) \<and>
     split_loop [] L acc = Some acc \<and>
     (t \<noteq> [] \<longrightarrow> split_loop t L acc =
        split_loop (remaining t (next_chunk t L)) L (acc @ [section_block (next_chunk t L)]))"
proof (intro conjI impI)
  assume L: "1 \<le> L"
  from L show "\<exists>bs. split_text_for_blocks t L = Some bs" by (rule split_text_terminates)
  from L show "\<exists>bs. split_loop t L acc = Some bs" by (rule split_loop_terminates)
  show "split_loop [] L acc = Some acc" by (rule split_loop_empty)
next
  assume "1 \<le> L" "t \<noteq> []"
  then show "length (remaining t (next_chunk t L)) < length t"
    by (intro remaining_shorter)
next
  assume "t \<noteq> []"
  then show "split_loop t L acc =
      split_loop (remaining t (next_chunk t L)) L (acc @ [section_block (next_chunk t L)])"
    by (rule split_loop_unfold)
qed

text \<open>
  On \<open>abcde\<close> with \<open>L = 2\<close> the first iteration emits \<open>ab\<close> and leaves \<open>cde\<close>; the function
  returns \<open>ab\<close>, \<open>cd\<close>, \<open>e\<close>.
\<close>

theorem chunking_loop_terminates_witness:
  "(1::int) \<le> 2 \<and> ''abcde'' \<noteq> [] \<and>
   split_text_for_blocks ''abcde'' 2 =
     Some [section_block ''ab'', section_block ''cd'', section_block ''e''] \<and>
   remaining ''abcde'' (next_chunk ''abcde'' 2) = ''cde'' \<and>
   length (remaining ''abcde'' (next_chunk ''abcde'' 2)) < length ''abcde'' \<and>
   split_loop ''abcde'' 2 [] = split_loop ''cde'' 2 [section_block ''ab'']"
proof -
  have e: "split_text_for_blocks ''abcde'' 2 =
     Some [section_block ''ab'', section_block ''cd'', section_block ''e'']"
    by code_simp
  have c: "next_chunk ''abcde'' 2 = ''ab''" by code_simp
  have r: "remaining ''abcde'' ''ab'' = ''cde''" by code_simp
  from chunking_loop_terminates[of 2 "''abcde''" "[]"] e c r
  show ?thesis by simp
qed

text \<open>
  Claim C10. For every non-empty text and every \<open>L \<ge> 1\<close> the function returns a list of
  blocks, each of which carries a non-empty chunk.
\<close>

theorem chunks_never_empty:
  "t \<noteq> [] \<Longrightarrow> 1 \<le> L \<Longrightarrow>
     \<exists>bs. split_text_for_blocks t L = Some bs \<and> bs \<noteq> [] \<and> (\<forall>b\<in>set bs. chunk_of b \<noteq> [])"
proof -
  assume t: "t \<noteq> []" and L: "1 \<le> L"
  from split_text_terminates[OF L] obtain bs where bs: "split_text_for_blocks t L = Some bs" ..
  from split_text_chunking[OF bs] have c: "chunking L t (map chunk_of bs)" ..
  from chunking_nonempty[OF c L] have n: "\<forall>b\<in>set bs. chunk_of b \<noteq> []" by simp
  from c t have "map chunk_of bs \<noteq> []" by (auto elim: chunking.cases)
  then have "bs \<noteq> []" by simp
  with bs n show ?thesis by blast
qed

text \<open>
  A text of two newlines with \<open>L = 5\<close>: the candidate is cut at its last newline, at
  position 1, and the single chunk is one newline.
\<close>

theorem chunks_never_empty_witness:
  "[newline, newline] \<noteq> [] \<and> (1::int) \<le> 5 \<and>
   split_text_for_blocks [newline, newline] 5 = Some [section_block [newline]] \<and>
   chunk_of (section_block [newline]) \<noteq> []"
proof -
  have e: "split_text_for_blocks [newline, newline] 5 = Some [section_block [newline]]"
    by code_simp
  from chunks_never_empty[of "[newline, newline]" 5] e
  show ?thesis by (simp add: chunk_of_section)
qed

lemma rfind_append_last: "c \<notin> set ys \<Longrightarrow> rfind (xs @ c # ys) c = int (length xs)"
proof (induction xs)
  case Nil
  then show ?case using rfind_neg_iff[of ys c] by (simp add: Let_def)
next
  case (Cons x xs)
  then show ?case by (simp add: Let_def)
qed

lemma rfind_absent: "c \<notin> set s \<Longrightarrow> rfind s c = - 1"
  using rfind_neg_iff[of s c] rfind_ge[of s c] by simp

lemma next_chunk_last_newline:
  assumes i: "0 < i" "i < length (slice_to t L)" "slice_to t L ! i = newline"
  defines "k \<equiv> nat (rfind (slice_to t L) newline)"
  shows "0 < k \<and> k < length (slice_to t L) \<and> slice_to t L ! k = newline \<and>
         (\<forall>j. k < j \<and> j < length (slice_to t L) \<longrightarrow> slice_to t L ! j \<noteq> newline) \<and>
         next_chunk t L = take k (slice_to t L)"
proof -
  let ?c = "slice_to t L"
  from rfind_last[OF i(2) i(3)] i(1) have pos: "0 < rfind ?c newline" by simp
  then have k: "int k = rfind ?c newline" by (simp add: k_def)
  from pos k have "0 < k" by simp
  moreover from rfind_lt[of ?c newline] k have "k < length ?c" by simp
  moreover from rfind_nth[of ?c newline] pos have "?c ! k = newline" by (simp add: k_def)
  moreover have "\<forall>j. k < j \<and> j < length ?c \<longrightarrow> ?c ! j \<noteq> newline"
  proof (intro allI impI notI)
    fix j
    assume j: "k < j \<and> j < length ?c" and "?c ! j = newline"
    then have "int j \<le> rfind ?c newline" by (intro rfind_last) simp_all
    with k j show False by simp
  qed
  moreover from pos have "next_chunk t L = take k ?c"
    by (simp add: next_chunk_cases k_def)
  ultimately show ?thesis by blast
qed

lemma split_example_3000:
  assumes xs: "length xs = 1500" "newline \<notin> set xs"
    and ys: "length ys = 1499" "newline \<notin> set ys"
  shows "next_chunk (xs @ newline # ys) 2900 = xs"
    and "split_text_for_blocks (xs @ newline # ys) 2900 = Some [section_block xs, section_block ys]"
proof -
  let ?t = "xs @ newline # ys"
  have cand: "slice_to ?t 2900 = xs @ newline # take 1399 ys"
    using xs(1) by (simp add: slice_to_def take_Cons')
  have "newline \<notin> set (take 1399 ys)" using ys(2) by (auto dest: in_set_takeD)
  then have r: "rfind (slice_to ?t 2900) newline = 1500"
    using xs(1) by (simp add: cand rfind_append_last)
  show c1: "next_chunk ?t 2900 = xs"
    using xs(1) by (simp add: next_chunk_cases r) (simp add: cand)
  have "ys \<noteq> []" using ys(1) by auto
  then have "dropWhile (\<lambda>c. c = newline) ys = ys" using ys(2) by (cases ys) auto
  then have rem1: "remaining ?t xs = ys"
    by (simp add: remaining_def lstrip_def slice_from_def)
  have cand2: "slice_to ys 2900 = ys" using ys(1) by (simp add: slice_to_def)
  have c2: "next_chunk ys 2900 = ys"
    using ys(2) by (simp add: next_chunk_cases cand2 rfind_absent)
  have rem2: "remaining ys ys = []"
    by (simp add: remaining_def lstrip_def slice_from_def)
  have "split_loop ?t 2900 [] = split_loop ys 2900 [section_block xs]"
    by (subst split_loop_unfold) (simp_all add: c1 rem1)
  also have "\<dots> = split_loop [] 2900 [section_block xs, section_block ys]"
    using \<open>ys \<noteq> []\<close> by (subst split_loop_unfold) (simp_all add: c2 rem2)
  also have "\<dots> = Some [section_block xs, section_block ys]" by (rule split_loop_empty)
  finally show "split_text_for_blocks ?t 2900 = Some [section_block xs, section_block ys]"
    by (simp add: split_text_for_blocks_def)
qed

text \<open>
  Claim C5. In every iteration, if the candidate \<open>text[:L]\<close> has a newline at a position
  greater than 0, the emitted chunk is the candidate cut at the last such newline, and the
  iteration appends that chunk. For a text of 3000 characters whose only newline is at
  position 1500, and \<open>L = 2900\<close>, the first chunk is the first 1500 characters (it ends at
  position 1500, not 2900), and the second chunk is the rest after the newline.
\<close>

theorem newline_break_preferred:
  "((\<exists>i. 0 < i \<and> i < length (slice_to t L) \<and> slice_to t L ! i = newline) \<longrightarrow>
      (\<exists>k. 0 < k \<and> k < length (slice_to t L) \<and> slice_to t L ! k = newline \<and>
           (\<forall>j. k < j \<and> j < length (slice_to t L) \<longrightarrow> slice_to t L ! j \<noteq> newline) \<and>
           next_chunk t L = take k (slice_to t L))) \<and>
   (t \<noteq> [] \<longrightarrow> split_loop t L acc =
      split_loop (remaining t (next_chunk t L)) L (acc @ [section_block (next_chunk t L)])) \<and>
   (length xs = 1500 \<and> newline \<notin> set xs \<and> length ys = 1499 \<and> newline \<notin> set ys \<longrightarrow>
      length (xs @ newline # ys) = 3000 \<and>
      next_chunk (xs @ newline # ys) 2900 = take 1500 (xs @ newline # ys) \<and>
      split_text_for_blocks (xs @ newline # ys) 2900 = Some [section_block xs, section_block ys])"
proof (intro conjI impI)
  assume "\<exists>i. 0 < i \<and> i < length (slice_to t L) \<and> slice_to t L ! i = newline"
  then obtain i where "0 < i" "i < length (slice_to t L)" "slice_to t L ! i = newline" by blast
  from next_chunk_last_newline[OF this]
  show "\<exists>k. 0 < k \<and> k < length (slice_to t L) \<and> slice_to t L ! k = newline \<and>
           (\<forall>j. k < j \<and> j < length (slice_to t L) \<longrightarrow> slice_to t L ! j \<noteq> newline) \<and>
           next_chunk t L = take k (slice_to t L)" by blast
next
  assume "t \<noteq> []"
  then show "split_loop t L acc =
      split_loop (remaining t (next_chunk t L)) L (acc @ [section_block (next_chunk t L)])"
    by (rule split_loop_unfold)
next
  assume a: "length xs = 1500 \<and> newline \<notin> set xs \<and> length ys = 1499 \<and> newline \<notin> set ys"
  then show "length (xs @ newline # ys) = 3000" by simp
  from a show "next_chunk (xs @ newline # ys) 2900 = take 1500 (xs @ newline # ys)"
    by (simp add: split_example_3000(1))
  from a show "split_text_for_blocks (xs @ newline # ys) 2900 =
      Some [section_block xs, section_block ys]"
    by (simp add: split_example_3000(2))
qed

text \<open>
  For the text of \<open>ab\<close>, newline, \<open>cd\<close>, newline, \<open>ef\<close> and \<open>L = 6\<close> the candidate ends with the
  second newline and is cut there, at position 5;
  and the text of 1500 times \<open>a\<close>, one newline and 1499 times \<open>b\<close> is split at the newline.
\<close>

theorem newline_break_preferred_witness:
  "(0::nat) < 2 \<and> 2 < length (slice_to [CHR ''a'', CHR ''b'', newline, CHR ''c'', CHR ''d'', newline, CHR ''e'', CHR ''f''] 6) \<and>
   slice_to [CHR ''a'', CHR ''b'', newline, CHR ''c'', CHR ''d'', newline, CHR ''e'', CHR ''f''] 6 ! 2 = newline \<and>
   (\<exists>k. 0 < k \<and> k < length (slice_to [CHR ''a'', CHR ''b'', newline, CHR ''c'', CHR ''d'', newline, CHR ''e'', CHR ''f''] 6) \<and> slice_to [CHR ''a'', CHR ''b'', newline, CHR ''c'', CHR ''d'', newline, CHR ''e'', CHR ''f''] 6 ! k = newline \<and>
        next_chunk [CHR ''a'', CHR ''b'', newline, CHR ''c'', CHR ''d'', newline, CHR ''e'', CHR ''f''] 6 = take k (slice_to [CHR ''a'', CHR ''b'', newline, CHR ''c'', CHR ''d'', newline, CHR ''e'', CHR ''f''] 6)) \<and>
   next_chunk [CHR ''a'', CHR ''b'', newline, CHR ''c'', CHR ''d'', newline, CHR ''e'', CHR ''f''] 6 = take 5 (slice_to [CHR ''a'', CHR ''b'', newline, CHR ''c'', CHR ''d'', newline, CHR ''e'', CHR ''f''] 6) \<and>
   next_chunk [CHR ''a'', CHR ''b'', newline, CHR ''c'', CHR ''d'', newline, CHR ''e'', CHR ''f''] 6 = [CHR ''a'', CHR ''b'', newline, CHR ''c'', CHR ''d''] \<and>
   [CHR ''a'', CHR ''b'', newline, CHR ''c'', CHR ''d'', newline, CHR ''e'', CHR ''f''] \<noteq> [] \<and>
   split_loop [CHR ''a'', CHR ''b'', newline, CHR ''c'', CHR ''d'', newline, CHR ''e'', CHR ''f''] 6 [] = split_loop ''ef'' 6 [section_block [CHR ''a'', CHR ''b'', newline, CHR ''c'', CHR ''d'']] \<and>
   length (replicate 1500 CHR ''a'') = 1500 \<and> newline \<notin> set (replicate 1500 CHR ''a'') \<and>
   length (replicate 1499 CHR ''b'') = 1499 \<and> newline \<notin> set (replicate 1499 CHR ''b'') \<and>
   next_chunk (replicate 1500 CHR ''a'' @ newline # replicate 1499 CHR ''b'') 2900 =
     replicate 1500 CHR ''a'' \<and>
   split_text_for_blocks (replicate 1500 CHR ''a'' @ newline # replicate 1499 CHR ''b'') 2900 =
     Some [section_block (replicate 1500 CHR ''a''), section_block (replicate 1499 CHR ''b'')]"
proof -
  have s: "slice_to [CHR ''a'', CHR ''b'', newline, CHR ''c'', CHR ''d'', newline, CHR ''e'', CHR ''f''] 6 = [CHR ''a'', CHR ''b'', newline, CHR ''c'', CHR ''d''] @ [newline]" by code_simp
  have c: "next_chunk [CHR ''a'', CHR ''b'', newline, CHR ''c'', CHR ''d'', newline, CHR ''e'', CHR ''f''] 6 = [CHR ''a'', CHR ''b'', newline, CHR ''c'', CHR ''d'']" by code_simp
  have r: "remaining [CHR ''a'', CHR ''b'', newline, CHR ''c'', CHR ''d'', newline, CHR ''e'', CHR ''f''] [CHR ''a'', CHR ''b'', newline, CHR ''c'', CHR ''d''] = ''ef''" by code_simp
  have n: "[CHR ''a'', CHR ''b'', newline, CHR ''c'', CHR ''d'', newline, CHR ''e'', CHR ''f''] \<noteq> []" by simp
  have h: "length (replicate 1500 CHR ''a'') = 1500 \<and> newline \<notin> set (replicate 1500 CHR ''a'') \<and>
     length (replicate 1499 CHR ''b'') = 1499 \<and> newline \<notin> set (replicate 1499 CHR ''b'')"
    by simp
  note inst = newline_break_preferred[of "[CHR ''a'', CHR ''b'', newline, CHR ''c'', CHR ''d'', newline, CHR ''e'', CHR ''f'']" 6 "[]" "replicate 1500 CHR ''a''" "replicate 1499 CHR ''b''"]
  from inst n have u: "split_loop [CHR ''a'', CHR ''b'', newline, CHR ''c'', CHR ''d'', newline, CHR ''e'', CHR ''f''] 6 [] =
      split_loop (remaining [CHR ''a'', CHR ''b'', newline, CHR ''c'', CHR ''d'', newline, CHR ''e'', CHR ''f''] (next_chunk [CHR ''a'', CHR ''b'', newline, CHR ''c'', CHR ''d'', newline, CHR ''e'', CHR ''f''] 6)) 6 ([] @ [section_block (next_chunk [CHR ''a'', CHR ''b'', newline, CHR ''c'', CHR ''d'', newline, CHR ''e'', CHR ''f''] 6)])"
    by blast
  from inst h have e: "next_chunk (replicate 1500 CHR ''a'' @ newline # replicate 1499 CHR ''b'') 2900 =
       take 1500 (replicate 1500 CHR ''a'' @ newline # replicate 1499 CHR ''b'')"
    "split_text_for_blocks (replicate 1500 CHR ''a'' @ newline # replicate 1499 CHR ''b'') 2900 =
     Some [section_block (replicate 1500 CHR ''a''), section_block (replicate 1499 CHR ''b'')]"
    by blast+
  have u': "split_loop [CHR ''a'', CHR ''b'', newline, CHR ''c'', CHR ''d'', newline, CHR ''e'', CHR ''f''] 6 [] = split_loop ''ef'' 6 [section_block [CHR ''a'', CHR ''b'', newline, CHR ''c'', CHR ''d'']]"
    by (subst u) (simp only: c r append_Nil)
  have e': "next_chunk (replicate 1500 CHR ''a'' @ newline # replicate 1499 CHR ''b'') 2900 =
     replicate 1500 CHR ''a''"
    by (subst e(1)) simp
  have p: "(0::nat) < 2 \<and> 2 < length (slice_to [CHR ''a'', CHR ''b'', newline, CHR ''c'', CHR ''d'', newline, CHR ''e'', CHR ''f''] 6) \<and> slice_to [CHR ''a'', CHR ''b'', newline, CHR ''c'', CHR ''d'', newline, CHR ''e'', CHR ''f''] 6 ! 2 = newline \<and>
     next_chunk [CHR ''a'', CHR ''b'', newline, CHR ''c'', CHR ''d'', newline, CHR ''e'', CHR ''f''] 6 = take 5 (slice_to [CHR ''a'', CHR ''b'', newline, CHR ''c'', CHR ''d'', newline, CHR ''e'', CHR ''f''] 6)"
    by (simp add: s c)
  from p have "\<exists>i. 0 < i \<and> i < length (slice_to [CHR ''a'', CHR ''b'', newline, CHR ''c'', CHR ''d'', newline, CHR ''e'', CHR ''f''] 6) \<and> slice_to [CHR ''a'', CHR ''b'', newline, CHR ''c'', CHR ''d'', newline, CHR ''e'', CHR ''f''] 6 ! i = newline"
    by (intro exI[of _ 2]) simp
  with inst have k: "\<exists>k. 0 < k \<and> k < length (slice_to [CHR ''a'', CHR ''b'', newline, CHR ''c'', CHR ''d'', newline, CHR ''e'', CHR ''f''] 6) \<and> slice_to [CHR ''a'', CHR ''b'', newline, CHR ''c'', CHR ''d'', newline, CHR ''e'', CHR ''f''] 6 ! k = newline \<and>
        next_chunk [CHR ''a'', CHR ''b'', newline, CHR ''c'', CHR ''d'', newline, CHR ''e'', CHR ''f''] 6 = take k (slice_to [CHR ''a'', CHR ''b'', newline, CHR ''c'', CHR ''d'', newline, CHR ''e'', CHR ''f''] 6)"
    by blast
  from p k c n u' h e' e(2) show ?thesis by (intro conjI) blast+
qed

section \<open>Properties of the prompt builder\<close>

lemma note_summary_cases:
  "note_summary n =
     Inr (''- '' @ strip (if truthy (n ''content'') then the (n ''content'')
                          else if truthy (n ''title'') then the (n ''title'') else []))"
  by (auto simp: note_summary_def py_or_def truthy_def split: option.splits)

lemma summaries_loop_map:
  "\<exists>lines. summaries_loop ns acc = Inr (acc @ lines) \<and> length lines = length ns \<and>
     (\<forall>i<length ns. note_summary (ns ! i) = Inr (lines ! i))"
proof (induction ns arbitrary: acc)
  case Nil
  show ?case by simp
next
  case (Cons n ns)
  from note_summary_cases[of n] obtain l where l: "note_summary n = Inr l" by blast
  from Cons.IH[of "acc @ [l]"] obtain lines where
    lines: "summaries_loop ns (acc @ [l]) = Inr ((acc @ [l]) @ lines)"
      "length lines = length ns"
      "\<forall>i<length ns. note_summary (ns ! i) = Inr (lines ! i)" by blast
  have "\<forall>i<length (n # ns). note_summary ((n # ns) ! i) = Inr ((l # lines) ! i)"
  proof (intro allI impI)
    fix i assume "i < length (n # ns)"
    then show "note_summary ((n # ns) ! i) = Inr ((l # lines) ! i)"
      using l lines(3) by (cases i) simp_all
  qed
  with l lines(1,2) show ?case
    by (intro exI[of _ "l # lines"]) simp
qed

lemma strip_trims:
  "\<exists>a b. s = a @ strip s @ b \<and> (\<forall>c\<in>set a. isspace c) \<and> (\<forall>c\<in>set b. isspace c) \<and>
     (strip s \<noteq> [] \<longrightarrow> \<not> isspace (hd (strip s)) \<and> \<not> isspace (last (strip s)))"
proof -
  let ?a = "takeWhile isspace s"
  let ?m = "dropWhile isspace s"
  let ?b = "rev (takeWhile isspace (rev ?m))"
  have m: "?m = strip s @ ?b"
  proof -
    have "?m = rev (takeWhile isspace (rev ?m) @ dropWhile isspace (rev ?m))"
      by (simp only: takeWhile_dropWhile_id rev_rev_ident)
    also have "\<dots> = rev (dropWhile isspace (rev ?m)) @ rev (takeWhile isspace (rev ?m))"
      by (simp only: rev_append)
    finally show ?thesis by (simp only: strip_def)
  qed
  have "s = ?a @ ?m" by simp
  with m have s: "s = ?a @ strip s @ ?b" by simp
  have a: "\<forall>c\<in>set ?a. isspace c" by (auto dest: set_takeWhileD)
  have b: "\<forall>c\<in>set ?b. isspace c" by (auto dest: set_takeWhileD)
  have e: "strip s \<noteq> [] \<longrightarrow> \<not> isspace (hd (strip s)) \<and> \<not> isspace (last (strip s))"
  proof
    assume ne: "strip s \<noteq> []"
    then have d: "dropWhile isspace (rev ?m) \<noteq> []" by (simp add: strip_def)
    then have l: "\<not> isspace (hd (dropWhile isspace (rev ?m)))" by (rule hd_dropWhile)
    have "last (strip s) = hd (dropWhile isspace (rev ?m))"
      using d by (simp add: strip_def last_rev)
    with l have last: "\<not> isspace (last (strip s))" by simp
    from ne m have "?m \<noteq> []" by (metis Nil_is_append_conv)
    then have "\<not> isspace (hd ?m)" by (rule hd_dropWhile)
    moreover from m ne have "hd ?m = hd (strip s)" by (metis hd_append2)
    ultimately show "\<not> isspace (hd (strip s)) \<and> \<not> isspace (last (strip s))"
      using last by simp
  qed
  from s a b e show ?thesis by blast
qed

text \<open>
  Claim C6. For every list of notes \<open>prepare_analysis_prompt\<close> returns a prompt and raises
  nothing. The prompt is the introductory sentence, which states the number of notes,
  followed by one line per note, the lines joined by newlines. The line of a note is
  \<open>- \<close> followed by the stripped content if the content is present and non-empty,
  otherwise by the stripped title if that is present and non-empty, and nothing after
  \<open>- \<close> when both are empty or absent. Stripping removes exactly the whitespace around
  the text.
\<close>

theorem prompt_content_fallback:
  "(\<exists>lines. prepare_analysis_prompt ns = Inr (prompt_intro ns @ join [newline] lines) \<and>
      length lines = length ns \<and>
      (\<forall>i<length ns.
         (\<forall>c. (ns ! i) ''content'' = Some c \<and> c \<noteq> [] \<longrightarrow> lines ! i = ''- '' @ strip c) \<and>
         (\<forall>t. ((ns ! i) ''content'' = None \<or> (ns ! i) ''content'' = Some []) \<and>
              (ns ! i) ''title'' = Some t \<and> t \<noteq> [] \<longrightarrow> lines ! i = ''- '' @ strip t) \<and>
         (((ns ! i) ''content'' = None \<or> (ns ! i) ''content'' = Some []) \<and>
          ((ns ! i) ''title'' = None \<or> (ns ! i) ''title'' = Some []) \<longrightarrow> lines ! i = ''- ''))) \<and>
   (\<exists>rest. prompt_intro ns =
      ''You are a product manager assistant analyzing '' @ str_int (int (length ns)) @ rest) \<and>
   (\<exists>a b. s = a @ strip s @ b \<and> (\<forall>c\<in>set a. isspace c) \<and> (\<forall>c\<in>set b. isspace c) \<and>
      (strip s \<noteq> [] \<longrightarrow> \<not> isspace (hd (strip s)) \<and> \<not> isspace (last (strip s))))"
proof (intro conjI)
  from summaries_loop_map[of ns "[]"] obtain lines where
    lines: "summaries_loop ns [] = Inr lines" "length lines = length ns"
      "\<forall>i<length ns. note_summary (ns ! i) = Inr (lines ! i)" by auto
  have "\<forall>i<length ns.
         (\<forall>c. (ns ! i) ''content'' = Some c \<and> c \<noteq> [] \<longrightarrow> lines ! i = ''- '' @ strip c) \<and>
         (\<forall>t. ((ns ! i) ''content'' = None \<or> (ns ! i) ''content'' = Some []) \<and>
              (ns ! i) ''title'' = Some t \<and> t \<noteq> [] \<longrightarrow> lines ! i = ''- '' @ strip t) \<and>
         (((ns ! i) ''content'' = None \<or> (ns ! i) ''content'' = Some []) \<and>
          ((ns ! i) ''title'' = None \<or> (ns ! i) ''title'' = Some []) \<longrightarrow> lines ! i = ''- '')"
  proof (intro allI impI)
    fix i assume "i < length ns"
    with lines(3) have "note_summary (ns ! i) = Inr (lines ! i)" by simp
    then have l: "lines ! i = ''- '' @ strip (if truthy ((ns ! i) ''content'') then the ((ns ! i) ''content'')
                          else if truthy ((ns ! i) ''title'') then the ((ns ! i) ''title'') else [])"
      by (simp only: note_summary_cases sum.inject)
    show "(\<forall>c. (ns ! i) ''content'' = Some c \<and> c \<noteq> [] \<longrightarrow> lines ! i = ''- '' @ strip c) \<and>
         (\<forall>t. ((ns ! i) ''content'' = None \<or> (ns ! i) ''content'' = Some []) \<and>
              (ns ! i) ''title'' = Some t \<and> t \<noteq> [] \<longrightarrow> lines ! i = ''- '' @ strip t) \<and>
         (((ns ! i) ''content'' = None \<or> (ns ! i) ''content'' = Some []) \<and>
          ((ns ! i) ''title'' = None \<or> (ns ! i) ''title'' = Some []) \<longrightarrow> lines ! i = ''- '')"
      unfolding l by (auto simp: truthy_def strip_def)
  qed
  with lines(1,2)
  show "\<exists>lines. prepare_analysis_prompt ns = Inr (prompt_intro ns @ join [newline] lines) \<and>
      length lines = length ns \<and>
      (\<forall>i<length ns.
         (\<forall>c. (ns ! i) ''content'' = Some c \<and> c \<noteq> [] \<longrightarrow> lines ! i = ''- '' @ strip c) \<and>
         (\<forall>t. ((ns ! i) ''content'' = None \<or> (ns ! i) ''content'' = Some []) \<and>
              (ns ! i) ''title'' = Some t \<and> t \<noteq> [] \<longrightarrow> lines ! i = ''- '' @ strip t) \<and>
         (((ns ! i) ''content'' = None \<or> (ns ! i) ''content'' = Some []) \<and>
          ((ns ! i) ''title'' = None \<or> (ns ! i) ''title'' = Some []) \<longrightarrow> lines ! i = ''- ''))"
    by (intro exI[of _ lines]) (simp add: prepare_analysis_prompt_def)
next
  show "\<exists>rest. prompt_intro ns =
      ''You are a product manager assistant analyzing '' @ str_int (int (length ns)) @ rest"
    unfolding prompt_intro_def by (intro exI) (rule refl)
next
  show "\<exists>a b. s = a @ strip s @ b \<and> (\<forall>c\<in>set a. isspace c) \<and> (\<forall>c\<in>set b. isspace c) \<and>
      (strip s \<noteq> [] \<longrightarrow> \<not> isspace (hd (strip s)) \<and> \<not> isspace (last (strip s)))"
    by (rule strip_trims)
qed

text \<open>
  Three notes: one with a content, one with an empty content and a title, one with
  neither. The prompt lists \<open>- hello\<close>, \<open>- T\<close> and \<open>- \<close>.
\<close>

theorem prompt_content_fallback_witness:
  "(2::nat) < length [[''content'' \<mapsto> '' hello ''], [''content'' \<mapsto> [], ''title'' \<mapsto> '' T''], Map.empty] \<and>
   ([[''content'' \<mapsto> '' hello ''], [''content'' \<mapsto> [], ''title'' \<mapsto> '' T''], Map.empty] ! 0) ''content'' = Some '' hello '' \<and> '' hello '' \<noteq> [] \<and>
   ([[''content'' \<mapsto> '' hello ''], [''content'' \<mapsto> [], ''title'' \<mapsto> '' T''], Map.empty] ! 1) ''content'' = Some [] \<and> ([[''content'' \<mapsto> '' hello ''], [''content'' \<mapsto> [], ''title'' \<mapsto> '' T''], Map.empty] ! 1) ''title'' = Some '' T'' \<and> '' T'' \<noteq> [] \<and>
   ([[''content'' \<mapsto> '' hello ''], [''content'' \<mapsto> [], ''title'' \<mapsto> '' T''], Map.empty] ! 2) ''content'' = None \<and> ([[''content'' \<mapsto> '' hello ''], [''content'' \<mapsto> [], ''title'' \<mapsto> '' T''], Map.empty] ! 2) ''title'' = None \<and>
   prepare_analysis_prompt [[''content'' \<mapsto> '' hello ''], [''content'' \<mapsto> [], ''title'' \<mapsto> '' T''], Map.empty] =
     Inr (prompt_intro [[''content'' \<mapsto> '' hello ''], [''content'' \<mapsto> [], ''title'' \<mapsto> '' T''], Map.empty] @ ''- hello'' @ [newline] @ ''- T'' @ [newline] @ ''- '') \<and>
   str_int (int (length [[''content'' \<mapsto> '' hello ''], [''content'' \<mapsto> [], ''title'' \<mapsto> '' T''], Map.empty])) = ''3''"
proof -
  let ?N = "[[''content'' \<mapsto> '' hello ''], [''content'' \<mapsto> [], ''title'' \<mapsto> '' T''], Map.empty]"
  from prompt_content_fallback[of ?N "[]"] obtain lines where
    p: "prepare_analysis_prompt ?N = Inr (prompt_intro ?N @ join [newline] lines)"
    and n: "length lines = length ?N"
    and l: "\<forall>i<length ?N.
         (\<forall>c. (?N ! i) ''content'' = Some c \<and> c \<noteq> [] \<longrightarrow> lines ! i = ''- '' @ strip c) \<and>
         (\<forall>t. ((?N ! i) ''content'' = None \<or> (?N ! i) ''content'' = Some []) \<and>
              (?N ! i) ''title'' = Some t \<and> t \<noteq> [] \<longrightarrow> lines ! i = ''- '' @ strip t) \<and>
         (((?N ! i) ''content'' = None \<or> (?N ! i) ''content'' = Some []) \<and>
          ((?N ! i) ''title'' = None \<or> (?N ! i) ''title'' = Some []) \<longrightarrow> lines ! i = ''- '')"
    by blast
  have s0: "strip '' hello '' = ''hello''" by (simp add: strip_def isspace_def)
  have s1: "strip '' T'' = ''T''" by (simp add: strip_def isspace_def)
  from l have "lines ! 0 = ''- '' @ strip '' hello ''" by simp
  with s0 have l0: "lines ! 0 = ''- hello''" by simp
  from l have "lines ! 1 = ''- '' @ strip '' T''" by simp
  with s1 have l1: "lines ! 1 = ''- T''" by simp
  from l have l2: "lines ! 2 = ''- ''" by simp
  from n have "length lines = 3" by simp
  then have "lines = [lines ! 0, lines ! 1, lines ! 2]"
    by (auto simp: numeral_3_eq_3 length_Suc_conv)
  with l0 l1 l2 have "lines = [''- hello'', ''- T'', ''- '']" by simp
  with p have "prepare_analysis_prompt ?N =
     Inr (prompt_intro ?N @ ''- hello'' @ [newline] @ ''- T'' @ [newline] @ ''- '')" by simp
  moreover have "str_int 3 = ''3''" by code_simp
  then have "str_int (int (length ?N)) = ''3''" by simp
  ultimately show ?thesis by simp
qed

section \<open>Properties of the fetcher\<close>

lemma requests_of_append: "requests_of (a @ b) = requests_of a @ requests_of b"
  by (induction a rule: requests_of.induct) simp_all

lemma fetch_loop_page:
  assumes "http_get svc (world s) (notes_request cfg 100 off (str_int days @ ''d''))
             = (Json (Some batch), w)"
  shows "fetch_loop svc cfg days acc off s =
     (if int (length batch) < 100
      then Some (Inr (acc @ batch),
             emit (LogInfo (''Fetched '' @ str_int (int (length batch))
                     @ '' notes (offset='' @ str_int off @ '')''))
               (emit (HttpGet (notes_request cfg 100 off (str_int days @ ''d''))) (s\<lparr>world := w\<rparr>)))
      else fetch_loop svc cfg days (acc @ batch) (off + 100)
             (emit (LogInfo (''Fetched '' @ str_int (int (length batch))
                     @ '' notes (offset='' @ str_int off @ '')''))
               (emit (HttpGet (notes_request cfg 100 off (str_int days @ ''d''))) (s\<lparr>world := w\<rparr>))))"
  by (subst fetch_loop.simps) (simp add: assms Let_def)

lemma fetch_loop_short_page:
  assumes "http_get svc (world s) (notes_request cfg 100 off (str_int days @ ''d''))
             = (Json (Some batch), w)"
    and "length batch < 100"
  shows "\<exists>s1. fetch_loop svc cfg days acc off s = Some (Inr (acc @ batch), s1) \<and> world s1 = w \<and>
           requests_of (trace s1) =
             requests_of (trace s) @ [notes_request cfg 100 off (str_int days @ ''d'')]"
  using assms(2)
  by (simp add: fetch_loop_page[OF assms(1)] emit_def requests_of_append)

lemma fetch_loop_full_page:
  assumes "http_get svc (world s) (notes_request cfg 100 off (str_int days @ ''d''))
             = (Json (Some batch), w)"
    and "100 \<le> length batch"
  shows "\<exists>s1. fetch_loop svc cfg days acc off s =
             fetch_loop svc cfg days (acc @ batch) (off + 100) s1 \<and> world s1 = w \<and>
           requests_of (trace s1) =
             requests_of (trace s) @ [notes_request cfg 100 off (str_int days @ ''d'')]"
proof -
  let ?s1 = "emit (LogInfo (''Fetched '' @ str_int (int (length batch))
                     @ '' notes (offset='' @ str_int off @ '')''))
               (emit (HttpGet (notes_request cfg 100 off (str_int days @ ''d''))) (s\<lparr>world := w\<rparr>))"
  have "fetch_loop svc cfg days acc off s = fetch_loop svc cfg days (acc @ batch) (off + 100) ?s1"
    using assms(2) by (subst fetch_loop_page[OF assms(1)]) simp
  moreover have "world ?s1 = w" by (simp add: emit_def)
  moreover have "requests_of (trace ?s1) =
      requests_of (trace s) @ [notes_request cfg 100 off (str_int days @ ''d'')]"
    by (simp add: emit_def requests_of_append)
  ultimately show ?thesis by blast
qed

lemma scripted_http_get: "http_get (scripted c r) (page # rest) req = (Json (Some page), rest)"
  by (simp add: scripted_def)

lemma upt_Suc_shift: "map f [0..<Suc (Suc n)] = f 0 # map (\<lambda>i. f (Suc i)) [0..<Suc n]"
proof -
  have "[0..<Suc (Suc n)] = 0 # map Suc [0..<Suc n]"
    by (simp only: map_Suc_upt upt_conv_Cons[of 0 "Suc (Suc n)"] zero_less_Suc)
  then show ?thesis by (simp only: list.map map_map comp_def)
qed

lemma fetch_loop_scripted:
  assumes "\<forall>p\<in>set ps. 100 \<le> length p" "length q < 100" "world s = ps @ q # rest"
  shows "\<exists>s1. fetch_loop (scripted c r) cfg days acc off s = Some (Inr (acc @ concat ps @ q), s1) \<and>
           world s1 = rest \<and>
           requests_of (trace s1) = requests_of (trace s) @
             map (\<lambda>i. notes_request cfg 100 (off + 100 * int i) (str_int days @ ''d''))
               [0..<Suc (length ps)]"
  using assms
proof (induction ps arbitrary: acc off s)
  case Nil
  from Nil(3) have "http_get (scripted c r) (world s) (notes_request cfg 100 off (str_int days @ ''d''))
      = (Json (Some q), rest)" by (simp add: scripted_http_get)
  from fetch_loop_short_page[OF this Nil(2), of acc] show ?case by simp
next
  case (Cons p ps)
  from Cons.prems(3) have "http_get (scripted c r) (world s)
      (notes_request cfg 100 off (str_int days @ ''d'')) = (Json (Some p), ps @ q # rest)"
    by (simp add: scripted_http_get)
  moreover from Cons.prems(1) have "100 \<le> length p" by simp
  ultimately obtain s1 where
    s1: "fetch_loop (scripted c r) cfg days acc off s =
           fetch_loop (scripted c r) cfg days (acc @ p) (off + 100) s1"
      "world s1 = ps @ q # rest"
      "requests_of (trace s1) =
         requests_of (trace s) @ [notes_request cfg 100 off (str_int days @ ''d'')]"
    using fetch_loop_full_page[of "scripted c r" s cfg off days p "ps @ q # rest" acc] by blast
  from Cons.prems(1) have "\<forall>p\<in>set ps. 100 \<le> length p" by simp
  from Cons.IH[OF this Cons.prems(2) s1(2), of "acc @ p" "off + 100"] obtain s2 where
    s2: "fetch_loop (scripted c r) cfg days (acc @ p) (off + 100) s1 =
           Some (Inr ((acc @ p) @ concat ps @ q), s2)"
      "world s2 = rest"
      "requests_of (trace s2) = requests_of (trace s1) @
         map (\<lambda>i. notes_request cfg 100 (off + 100 + 100 * int i) (str_int days @ ''d''))
           [0..<Suc (length ps)]" by blast
  have "map (\<lambda>i. notes_request cfg 100 (off + 100 * int i) (str_int days @ ''d''))
          [0..<Suc (length (p # ps))] =
        notes_request cfg 100 off (str_int days @ ''d'') #
        map (\<lambda>i. notes_request cfg 100 (off + 100 + 100 * int i) (str_int days @ ''d''))
          [0..<Suc (length ps)]"
    by (simp add: upt_Suc_shift algebra_simps del: upt_Suc)
  with s1 s2 show ?case by (intro exI[of _ s2]) simp
qed

lemma fetch_feedback_notes_result:
  assumes "fetch_loop svc cfg days [] 0 s = Some (Inr ns, s1)"
  shows "\<exists>s2. fetch_feedback_notes svc cfg days s = Some (Inr ns, s2) \<and> world s2 = world s1 \<and>
           requests_of (trace s2) = requests_of (trace s1)"
  by (simp add: fetch_feedback_notes_def assms emit_def requests_of_append)
text \<open>
  Claim C3. If the feedback source answers the requests with offsets 0, 100 and 200 by
  pages of 100, 100 and 37 notes, \<open>fetch_feedback_notes\<close> issues exactly these three
  requests, each with the same lookback filter, and returns the 237 notes in page order.
  If the first page has fewer than 100 notes, exactly one request is issued. In general,
  for a source that serves a list of pages in order, the loop goes on over every page of
  at least 100 notes and stops at the first shorter page: after \<open>k\<close> full pages it has
  issued \<open>k + 1\<close> requests, with offsets \<open>0, 100, \<dots>, 100 k\<close>.
\<close>

theorem pagination_requests:
  "(http_get svc w0 (notes_request cfg 100 0 (str_int days @ ''d'')) = (Json (Some p1), w1) \<and>
    http_get svc w1 (notes_request cfg 100 100 (str_int days @ ''d'')) = (Json (Some p2), w2) \<and>
    http_get svc w2 (notes_request cfg 100 200 (str_int days @ ''d'')) = (Json (Some p3), w3) \<and>
    length p1 = 100 \<and> length p2 = 100 \<and> length p3 = 37 \<longrightarrow>
    (\<exists>s1. fetch_feedback_notes svc cfg days \<lparr>world = w0, trace = []\<rparr> = Some (Inr (p1 @ p2 @ p3), s1) \<and>
       world s1 = w3 \<and>
       requests_of (trace s1) =
         [notes_request cfg 100 0 (str_int days @ ''d''),
          notes_request cfg 100 100 (str_int days @ ''d''),
          notes_request cfg 100 200 (str_int days @ ''d'')] \<and>
       length (p1 @ p2 @ p3) = 237)) \<and>
   (http_get svc w0 (notes_request cfg 100 0 (str_int days @ ''d'')) = (Json (Some p1), w1) \<and>
    length p1 < 100 \<longrightarrow>
    (\<exists>s1. fetch_feedback_notes svc cfg days \<lparr>world = w0, trace = []\<rparr> = Some (Inr p1, s1) \<and>
       world s1 = w1 \<and>
       requests_of (trace s1) = [notes_request cfg 100 0 (str_int days @ ''d'')])) \<and>
   ((\<forall>p\<in>set ps. 100 \<le> length p) \<and> length q < 100 \<longrightarrow>
    (\<exists>s1. fetch_feedback_notes (scripted c r) cfg days \<lparr>world = ps @ q # rest, trace = []\<rparr>
             = Some (Inr (concat ps @ q), s1) \<and>
       world s1 = rest \<and>
       requests_of (trace s1) =
         map (\<lambda>i. notes_request cfg 100 (100 * int i) (str_int days @ ''d''))
           [0..<Suc (length ps)]))"
proof (intro conjI impI)
  let ?L = "str_int days @ ''d''"
  let ?s0 = "\<lparr>world = w0, trace = []\<rparr> :: 'a state"
  assume a: "http_get svc w0 (notes_request cfg 100 0 ?L) = (Json (Some p1), w1) \<and>
    http_get svc w1 (notes_request cfg 100 100 ?L) = (Json (Some p2), w2) \<and>
    http_get svc w2 (notes_request cfg 100 200 ?L) = (Json (Some p3), w3) \<and>
    length p1 = 100 \<and> length p2 = 100 \<and> length p3 = 37"
  from a have g1: "http_get svc (world ?s0) (notes_request cfg 100 0 ?L) = (Json (Some p1), w1)"
    by simp
  from a have "100 \<le> length p1" by simp
  from fetch_loop_full_page[OF g1 this, of "[]"] obtain s1 where
    s1: "fetch_loop svc cfg days [] 0 ?s0 = fetch_loop svc cfg days p1 100 s1"
      "world s1 = w1" "requests_of (trace s1) = [notes_request cfg 100 0 ?L]" by auto
  from a s1(2) have g2: "http_get svc (world s1) (notes_request cfg 100 100 ?L) = (Json (Some p2), w2)"
    by simp
  from a have "100 \<le> length p2" by simp
  from fetch_loop_full_page[OF g2 this, of p1] obtain s2 where
    s2: "fetch_loop svc cfg days p1 100 s1 = fetch_loop svc cfg days (p1 @ p2) 200 s2"
      "world s2 = w2"
      "requests_of (trace s2) = requests_of (trace s1) @ [notes_request cfg 100 100 ?L]" by auto
  from a s2(2) have g3: "http_get svc (world s2) (notes_request cfg 100 200 ?L) = (Json (Some p3), w3)"
    by simp
  from a have "length p3 < 100" by simp
  from fetch_loop_short_page[OF g3 this, of "p1 @ p2"] obtain s3 where
    s3: "fetch_loop svc cfg days (p1 @ p2) 200 s2 = Some (Inr ((p1 @ p2) @ p3), s3)"
      "world s3 = w3"
      "requests_of (trace s3) = requests_of (trace s2) @ [notes_request cfg 100 200 ?L]" by auto
  from s1(1) s2(1) s3(1) have "fetch_loop svc cfg days [] 0 ?s0 = Some (Inr (p1 @ p2 @ p3), s3)"
    by simp
  from fetch_feedback_notes_result[OF this] obtain s4 where
    "fetch_feedback_notes svc cfg days ?s0 = Some (Inr (p1 @ p2 @ p3), s4)"
    "world s4 = world s3" "requests_of (trace s4) = requests_of (trace s3)" by blast
  with s1(3) s2(3) s3(2,3) a
  show "\<exists>s1. fetch_feedback_notes svc cfg days ?s0 = Some (Inr (p1 @ p2 @ p3), s1) \<and>
       world s1 = w3 \<and>
       requests_of (trace s1) =
         [notes_request cfg 100 0 ?L, notes_request cfg 100 100 ?L, notes_request cfg 100 200 ?L] \<and>
       length (p1 @ p2 @ p3) = 237"
    by (intro exI[of _ s4]) simp
next
  let ?L = "str_int days @ ''d''"
  let ?s0 = "\<lparr>world = w0, trace = []\<rparr> :: 'a state"
  assume a: "http_get svc w0 (notes_request cfg 100 0 ?L) = (Json (Some p1), w1) \<and> length p1 < 100"
  then have g1: "http_get svc (world ?s0) (notes_request cfg 100 0 ?L) = (Json (Some p1), w1)"
    by simp
  from a have "length p1 < 100" by simp
  from fetch_loop_short_page[OF g1 this, of "[]"] obtain s1 where
    s1: "fetch_loop svc cfg days [] 0 ?s0 = Some (Inr p1, s1)"
      "world s1 = w1" "requests_of (trace s1) = [notes_request cfg 100 0 ?L]" by auto
  from fetch_feedback_notes_result[OF s1(1)] obtain s2 where
    "fetch_feedback_notes svc cfg days ?s0 = Some (Inr p1, s2)"
    "world s2 = world s1" "requests_of (trace s2) = requests_of (trace s1)" by blast
  with s1(2,3)
  show "\<exists>s1. fetch_feedback_notes svc cfg days ?s0 = Some (Inr p1, s1) \<and> world s1 = w1 \<and>
       requests_of (trace s1) = [notes_request cfg 100 0 ?L]"
    by (intro exI[of _ s2]) simp
next
  let ?L = "str_int days @ ''d''"
  let ?s0 = "\<lparr>world = ps @ q # rest, trace = []\<rparr>"
  assume a: "(\<forall>p\<in>set ps. 100 \<le> length p) \<and> length q < 100"
  then have f: "\<forall>p\<in>set ps. 100 \<le> length p" and sh: "length q < 100" by simp_all
  have w: "world ?s0 = ps @ q # rest" by simp
  from fetch_loop_scripted[OF f sh w, of c r cfg days "[]" 0] obtain s1 where
    s1: "fetch_loop (scripted c r) cfg days [] 0 ?s0 = Some (Inr (concat ps @ q), s1)"
      "world s1 = rest"
      "requests_of (trace s1) =
         map (\<lambda>i. notes_request cfg 100 (100 * int i) ?L) [0..<Suc (length ps)]" by auto
  from fetch_feedback_notes_result[OF s1(1)] obtain s2 where
    "fetch_feedback_notes (scripted c r) cfg days ?s0 = Some (Inr (concat ps @ q), s2)"
    "world s2 = world s1" "requests_of (trace s2) = requests_of (trace s1)" by blast
  with s1(2,3)
  show "\<exists>s1. fetch_feedback_notes (scripted c r) cfg days ?s0 = Some (Inr (concat ps @ q), s1) \<and>
       world s1 = rest \<and>
       requests_of (trace s1) =
         map (\<lambda>i. notes_request cfg 100 (100 * int i) ?L) [0..<Suc (length ps)]"
    by (intro exI[of _ s2]) simp
qed

text \<open>
  The scripted source with pages of 100, 100 and 37 empty notes, and with the single page
  of 37 notes, for \<open>days = 14\<close>.
\<close>

theorem pagination_requests_witness:
  "(\<exists>s1. fetch_feedback_notes (scripted (Choices []) PostOk) \<lparr>SLACK_BOT_TOKEN = ''xoxb'', PRODUCTBOARD_API_TOKEN = ''pb'', PRODUCT_TEAM_CHANNEL = Some ''C1'', OPENAI_API_KEY = ''sk''\<rparr> 14 \<lparr>world = [replicate 100 (Map.empty :: feedback_note), replicate 100 (Map.empty :: feedback_note), replicate 37 (Map.empty :: feedback_note)], trace = []\<rparr>
           = Some (Inr (replicate 100 (Map.empty :: feedback_note) @ replicate 100 (Map.empty :: feedback_note) @ replicate 37 (Map.empty :: feedback_note)), s1) \<and>
      world s1 = [] \<and>
      map pageOffset (requests_of (trace s1)) = [0, 100, 200] \<and>
      map pageLimit (requests_of (trace s1)) = [100, 100, 100] \<and>
      map last_param (requests_of (trace s1)) = [''14d'', ''14d'', ''14d''] \<and>
      length (replicate 100 (Map.empty :: feedback_note) @ replicate 100 (Map.empty :: feedback_note) @ replicate 37 (Map.empty :: feedback_note)) = 237) \<and>
   (\<exists>s1. fetch_feedback_notes (scripted (Choices []) PostOk) \<lparr>SLACK_BOT_TOKEN = ''xoxb'', PRODUCTBOARD_API_TOKEN = ''pb'', PRODUCT_TEAM_CHANNEL = Some ''C1'', OPENAI_API_KEY = ''sk''\<rparr> 14 \<lparr>world = [replicate 37 (Map.empty :: feedback_note)], trace = []\<rparr> = Some (Inr (replicate 37 (Map.empty :: feedback_note)), s1) \<and>
      world s1 = [] \<and>
      map pageOffset (requests_of (trace s1)) = [0]) \<and>
   (\<exists>s1. fetch_feedback_notes (scripted (Choices []) PostOk) \<lparr>SLACK_BOT_TOKEN = ''xoxb'', PRODUCTBOARD_API_TOKEN = ''pb'', PRODUCT_TEAM_CHANNEL = Some ''C1'', OPENAI_API_KEY = ''sk''\<rparr> 14 \<lparr>world = [replicate 100 (Map.empty :: feedback_note), replicate 100 (Map.empty :: feedback_note)] @ replicate 37 (Map.empty :: feedback_note) # [], trace = []\<rparr>
           = Some (Inr (concat [replicate 100 (Map.empty :: feedback_note), replicate 100 (Map.empty :: feedback_note)] @ replicate 37 (Map.empty :: feedback_note)), s1) \<and>
      world s1 = [] \<and>
      map pageOffset (requests_of (trace s1)) = [0, 100, 200])"
proof -
  let ?svc = "scripted (Choices []) PostOk"
  let ?cfg = "\<lparr>SLACK_BOT_TOKEN = ''xoxb'', PRODUCTBOARD_API_TOKEN = ''pb'', PRODUCT_TEAM_CHANNEL = Some ''C1'', OPENAI_API_KEY = ''sk''\<rparr>"
  let ?A = "replicate 100 (Map.empty :: feedback_note)"
  let ?B = "replicate 37 (Map.empty :: feedback_note)"
  have d: "str_int 14 @ ''d'' = ''14d''" by code_simp
  have h3: "http_get ?svc [?A, ?A, ?B] (notes_request ?cfg 100 0 (str_int 14 @ ''d'')) = (Json (Some ?A), [?A, ?B]) \<and>
    http_get ?svc [?A, ?B] (notes_request ?cfg 100 100 (str_int 14 @ ''d'')) = (Json (Some ?A), [?B]) \<and>
    http_get ?svc [?B] (notes_request ?cfg 100 200 (str_int 14 @ ''d'')) = (Json (Some ?B), []) \<and>
    length ?A = 100 \<and> length ?A = 100 \<and> length ?B = 37"
    by (simp add: scripted_def)
  have h1: "http_get ?svc [?B] (notes_request ?cfg 100 0 (str_int 14 @ ''d'')) = (Json (Some ?B), []) \<and>
    length ?B < 100"
    by (simp add: scripted_def)
  note a = pagination_requests[where svc = ?svc and cfg = ?cfg and days = 14
      and ?w0.0 = "[?A, ?A, ?B]" and ?p1.0 = ?A and ?w1.0 = "[?A, ?B]" and ?p2.0 = ?A
      and ?w2.0 = "[?B]" and ?p3.0 = ?B and ?w3.0 = "[]"]
  note b = pagination_requests[where svc = ?svc and cfg = ?cfg and days = 14
      and ?w0.0 = "[?B]" and ?p1.0 = ?B and ?w1.0 = "[]"]
  from a h3 obtain s1 where
    s1: "fetch_feedback_notes ?svc ?cfg 14 \<lparr>world = [?A, ?A, ?B], trace = []\<rparr>
           = Some (Inr (?A @ ?A @ ?B), s1)"
      "world s1 = []"
      "requests_of (trace s1) =
         [notes_request ?cfg 100 0 (str_int 14 @ ''d''),
          notes_request ?cfg 100 100 (str_int 14 @ ''d''),
          notes_request ?cfg 100 200 (str_int 14 @ ''d'')]"
      "length (?A @ ?A @ ?B) = 237" by blast
  from b h1 obtain s2 where
    s2: "fetch_feedback_notes ?svc ?cfg 14 \<lparr>world = [?B], trace = []\<rparr> = Some (Inr ?B, s2)"
      "world s2 = []"
      "requests_of (trace s2) = [notes_request ?cfg 100 0 (str_int 14 @ ''d'')]" by blast
  have r1: "map pageOffset (requests_of (trace s1)) = [0, 100, 200] \<and>
      map pageLimit (requests_of (trace s1)) = [100, 100, 100] \<and>
      map last_param (requests_of (trace s1)) = [''14d'', ''14d'', ''14d'']"
    unfolding s1(3) d by (simp add: notes_request_def)
  have r2: "map pageOffset (requests_of (trace s2)) = [0]"
    unfolding s2(3) by (simp add: notes_request_def)
  from s1(1,2,4) r1 have c1: "\<exists>s. fetch_feedback_notes ?svc ?cfg 14 \<lparr>world = [?A, ?A, ?B], trace = []\<rparr>
           = Some (Inr (?A @ ?A @ ?B), s) \<and>
      world s = [] \<and>
      map pageOffset (requests_of (trace s)) = [0, 100, 200] \<and>
      map pageLimit (requests_of (trace s)) = [100, 100, 100] \<and>
      map last_param (requests_of (trace s)) = [''14d'', ''14d'', ''14d''] \<and>
      length (?A @ ?A @ ?B) = 237"
    by (intro exI[of _ s1] conjI) (elim conjE, assumption)+
  from s2(1,2) r2 have c2: "\<exists>s. fetch_feedback_notes ?svc ?cfg 14 \<lparr>world = [?B], trace = []\<rparr> = Some (Inr ?B, s) \<and>
      world s = [] \<and>
      map pageOffset (requests_of (trace s)) = [0]"
    by (intro exI[of _ s2] conjI)
  have h: "(\<forall>p\<in>set [?A, ?A]. 100 \<le> length p) \<and> length ?B < 100" by simp
  note g = pagination_requests[where ps = "[?A, ?A]" and q = ?B and rest = "[]" and cfg = ?cfg
      and days = 14 and c = "Choices []" and r = PostOk, THEN conjunct2, THEN conjunct2,
      THEN mp, OF h]
  from g
  obtain s3 where
    s3: "fetch_feedback_notes ?svc ?cfg 14 \<lparr>world = [?A, ?A] @ ?B # [], trace = []\<rparr>
           = Some (Inr (concat [?A, ?A] @ ?B), s3)"
      "world s3 = []"
      "requests_of (trace s3) =
         map (\<lambda>i. notes_request ?cfg 100 (100 * int i) (str_int 14 @ ''d''))
           [0..<Suc (length [?A, ?A])]" by (elim exE conjE)
  have "map pageOffset (requests_of (trace s3)) = [0, 100, 200]"
    unfolding s3(3) by (simp add: notes_request_def)
  with s3(1,2) have c3: "\<exists>s. fetch_feedback_notes ?svc ?cfg 14 \<lparr>world = [?A, ?A] @ ?B # [], trace = []\<rparr>
           = Some (Inr (concat [?A, ?A] @ ?B), s) \<and>
      world s = [] \<and>
      map pageOffset (requests_of (trace s)) = [0, 100, 200]"
    by (intro exI[of _ s3] conjI)
  from c1 c2 c3 show ?thesis by (intro conjI)
qed

section \<open>Properties of the run\<close>

lemma fetch_loop_trace:
  assumes "fetch_loop svc cfg days acc off s = Some y"
  shows "\<exists>evs. trace (snd y) = trace s @ evs \<and>
           (\<forall>e\<in>set evs. \<not> is_summarization_call e \<and> \<not> is_notification_call e)"
  using assms
proof (induction svc cfg days acc off s y rule: fetch_loop.raw_induct[rotated 1, consumes 1])
  case (1 f svc cfg days acc off s y)
  let ?params = "notes_request cfg 100 off (str_int days @ ''d'')"
  obtain response w where g: "http_get svc (world s) ?params = (response, w)"
    by (cases "http_get svc (world s) ?params")
  let ?s1 = "emit (HttpGet ?params) (s\<lparr>world := w\<rparr>)"
  have t1: "trace ?s1 = trace s @ [HttpGet ?params]" by (simp add: emit_def)
  show ?case
  proof (cases response)
    case RequestFailed
    with 1(2) g have "y = (Inl FetchError, ?s1)" by (simp add: Let_def)
    with t1 show ?thesis by simp
  next
    case BadBody
    with 1(2) g have "y = (Inl FetchError, ?s1)" by (simp add: Let_def)
    with t1 show ?thesis by simp
  next
    case (Json data)
    define batch where "batch = (case data of None \<Rightarrow> [] | Some b \<Rightarrow> b)"
    let ?s2 = "emit (LogInfo (''Fetched '' @ str_int (int (length batch))
                 @ '' notes (offset='' @ str_int off @ '')'')) ?s1"
    have t2: "trace ?s2 = trace s @ [HttpGet ?params, LogInfo (''Fetched '' @ str_int (int (length batch))
                 @ '' notes (offset='' @ str_int off @ '')'')]" by (simp add: emit_def)
    show ?thesis
    proof (cases "int (length batch) < 100")
      case True
      with 1(2) g Json have "y = (Inr (acc @ batch), ?s2)" by (simp add: Let_def batch_def)
      then have "snd y = ?s2" by simp
      with t2 show ?thesis by (intro exI[of _ "[HttpGet ?params, LogInfo (''Fetched '' @ str_int (int (length batch))
                 @ '' notes (offset='' @ str_int off @ '')'')]"]) simp
    next
      case False
      with 1(2) g Json have "f svc cfg days (acc @ batch) (off + 100) ?s2 = Some y"
        by (simp add: Let_def batch_def)
      from 1(1)[OF this] obtain evs where
        evs: "trace (snd y) = trace ?s2 @ evs"
          "\<forall>e\<in>set evs. \<not> is_summarization_call e \<and> \<not> is_notification_call e" by blast
      from evs(1) t2 have "trace (snd y) = trace s @ ([HttpGet ?params, LogInfo (''Fetched '' @ str_int (int (length batch))
                 @ '' notes (offset='' @ str_int off @ '')'')] @ evs)" by simp
      moreover from evs(2) have "\<forall>e\<in>set ([HttpGet ?params, LogInfo (''Fetched '' @ str_int (int (length batch))
                 @ '' notes (offset='' @ str_int off @ '')'')] @ evs).
            \<not> is_summarization_call e \<and> \<not> is_notification_call e" by simp
      ultimately show ?thesis by blast
    qed
  qed
qed

lemma fetch_feedback_notes_trace:
  assumes "fetch_feedback_notes svc cfg days s = Some (r, s1)"
  shows "\<exists>evs. trace s1 = trace s @ evs \<and>
           (\<forall>e\<in>set evs. \<not> is_summarization_call e \<and> \<not> is_notification_call e)"
proof -
  from assms obtain y where y: "fetch_loop svc cfg days [] 0 s = Some y"
    by (cases "fetch_loop svc cfg days [] 0 s") (simp_all add: fetch_feedback_notes_def)
  from fetch_loop_trace[OF y] obtain evs where
    evs: "trace (snd y) = trace s @ evs"
      "\<forall>e\<in>set evs. \<not> is_summarization_call e \<and> \<not> is_notification_call e" by blast
  obtain r0 s0 where y0: "y = (r0, s0)" by (cases y)
  show ?thesis
  proof (cases r0)
    case (Inl e)
    with assms y y0 have "s1 = s0" by (simp add: fetch_feedback_notes_def)
    with evs y0 show ?thesis by auto
  next
    case (Inr ns)
    with assms y y0 have "trace s1 = trace s0 @ [LogInfo (''Total notes fetched for last ''
        @ str_int days @ '' days: '' @ str_int (int (length ns)))]"
      by (auto simp: fetch_feedback_notes_def emit_def)
    with evs y0 have "trace s1 = trace s @ (evs @ [LogInfo (''Total notes fetched for last ''
        @ str_int days @ '' days: '' @ str_int (int (length ns)))])" by simp
    moreover from evs(2) have "\<forall>e\<in>set (evs @ [LogInfo (''Total notes fetched for last ''
        @ str_int days @ '' days: '' @ str_int (int (length ns)))]).
          \<not> is_summarization_call e \<and> \<not> is_notification_call e" by simp
    ultimately show ?thesis by blast
  qed
qed

text \<open>
  Claim C7. If the fetch phase returns zero notes, \<open>main\<close> logs the warning and returns
  normally, with exit status 0, in the state the fetch left: between the start of the run
  and its end the trace has no summarization call and no notification call.
\<close>

theorem empty_batch_short_circuit:
  "fetch_feedback_notes svc cfg 14 s = Some (Inr [], s1) \<Longrightarrow>
     main svc cfg s =
       Some (Inr (), emit (LogWarning ''No feedback notes found for analysis. Exiting.'') s1) \<and>
     (\<exists>r s2. main svc cfg s = Some (r, s2) \<and> exit_status r = 0 \<and> world s2 = world s1 \<and>
        (\<exists>evs. trace s2 = trace s @ evs @ [LogWarning ''No feedback notes found for analysis. Exiting.''] \<and>
           (\<forall>e\<in>set evs. \<not> is_summarization_call e \<and> \<not> is_notification_call e)))"
proof -
  assume a: "fetch_feedback_notes svc cfg 14 s = Some (Inr [], s1)"
  let ?s2 = "emit (LogWarning ''No feedback notes found for analysis. Exiting.'') s1"
  from a have m: "main svc cfg s = Some (Inr (), ?s2)" by (simp add: main_def)
  from fetch_feedback_notes_trace[OF a] obtain evs where
    evs: "trace s1 = trace s @ evs"
      "\<forall>e\<in>set evs. \<not> is_summarization_call e \<and> \<not> is_notification_call e" by blast
  from evs(1) have "trace ?s2 = trace s @ evs @ [LogWarning ''No feedback notes found for analysis. Exiting.'']"
    by (simp add: emit_def)
  with evs(2) have "\<exists>evs. trace ?s2 = trace s @ evs @ [LogWarning ''No feedback notes found for analysis. Exiting.''] \<and>
           (\<forall>e\<in>set evs. \<not> is_summarization_call e \<and> \<not> is_notification_call e)" by blast
  moreover have "exit_status (Inr ()) = 0" by (simp add: exit_status_def)
  moreover have "world ?s2 = world s1" by (simp add: emit_def)
  ultimately show ?thesis using m by blast
qed
lemma str_int_0: "str_int 0 = ''0''"
  by code_simp

lemma str_int_1: "str_int 1 = ''1''"
  by code_simp

lemma str_int_14: "str_int 14 = ''14''"
  by code_simp

lemma fetch_scripted_single_page:
  assumes "length page < 100"
  shows "fetch_feedback_notes (scripted c r) cfg days \<lparr>world = page # rest, trace = tr\<rparr> =
     Some (Inr page,
       \<lparr>world = rest,
        trace = tr @
          [HttpGet (notes_request cfg 100 0 (str_int days @ ''d'')),
           LogInfo (''Fetched '' @ str_int (int (length page)) @ '' notes (offset='' @ str_int 0 @ '')''),
           LogInfo (''Total notes fetched for last '' @ str_int days @ '' days: ''
             @ str_int (int (length page)))]\<rparr>)"
proof -
  have "http_get (scripted c r) (world \<lparr>world = page # rest, trace = tr\<rparr>)
      (notes_request cfg 100 0 (str_int days @ ''d'')) = (Json (Some page), rest)"
    by (simp add: scripted_def)
  from fetch_loop_page[OF this, of "[]"] assms show ?thesis
    by (simp add: fetch_feedback_notes_def emit_def)
qed

text \<open>
  The scripted source with one empty page: the run is the request, the two log lines of
  the fetcher and the warning.
\<close>

theorem empty_batch_short_circuit_witness:
  "fetch_feedback_notes (scripted (Choices [Some ''ok'']) PostOk)
     \<lparr>SLACK_BOT_TOKEN = ''xoxb'', PRODUCTBOARD_API_TOKEN = ''pb'',
      PRODUCT_TEAM_CHANNEL = Some ''C1'', OPENAI_API_KEY = ''sk''\<rparr> 14
     \<lparr>world = [[]], trace = []\<rparr> =
   Some (Inr [],
     \<lparr>world = [],
      trace = [HttpGet \<lparr>url = ''https://api.productboard.com/notes'', authorization = ''Bearer pb'',
                 content_type = ''application/json'', x_version = ''1'', pageLimit = 100,
                 pageOffset = 0, last_param = ''14d''\<rparr>,
               LogInfo ''Fetched 0 notes (offset=0)'',
               LogInfo ''Total notes fetched for last 14 days: 0'']\<rparr>) \<and>
   main (scripted (Choices [Some ''ok'']) PostOk)
     \<lparr>SLACK_BOT_TOKEN = ''xoxb'', PRODUCTBOARD_API_TOKEN = ''pb'',
      PRODUCT_TEAM_CHANNEL = Some ''C1'', OPENAI_API_KEY = ''sk''\<rparr>
     \<lparr>world = [[]], trace = []\<rparr> =
   Some (Inr (),
     \<lparr>world = [],
      trace = [HttpGet \<lparr>url = ''https://api.productboard.com/notes'', authorization = ''Bearer pb'',
                 content_type = ''application/json'', x_version = ''1'', pageLimit = 100,
                 pageOffset = 0, last_param = ''14d''\<rparr>,
               LogInfo ''Fetched 0 notes (offset=0)'',
               LogInfo ''Total notes fetched for last 14 days: 0'',
               LogWarning ''No feedback notes found for analysis. Exiting.'']\<rparr>) \<and>
   exit_status (Inr ()) = 0"
proof -
  let ?svc = "scripted (Choices [Some ''ok'']) PostOk"
  let ?cfg = "\<lparr>SLACK_BOT_TOKEN = ''xoxb'', PRODUCTBOARD_API_TOKEN = ''pb'',
      PRODUCT_TEAM_CHANNEL = Some ''C1'', OPENAI_API_KEY = ''sk''\<rparr>"
  let ?s1 = "\<lparr>world = [] :: feedback_note list list,
      trace = [HttpGet \<lparr>url = ''https://api.productboard.com/notes'', authorization = ''Bearer pb'',
                 content_type = ''application/json'', x_version = ''1'', pageLimit = 100,
                 pageOffset = 0, last_param = ''14d''\<rparr>,
               LogInfo ''Fetched 0 notes (offset=0)'',
               LogInfo ''Total notes fetched for last 14 days: 0'']\<rparr>"
  have f: "fetch_feedback_notes ?svc ?cfg 14 \<lparr>world = [[]], trace = []\<rparr> = Some (Inr [], ?s1)"
    by (simp add: fetch_scripted_single_page notes_request_def str_int_0 str_int_14)
  from empty_batch_short_circuit[OF f]
  have "main ?svc ?cfg \<lparr>world = [[]], trace = []\<rparr> =
      Some (Inr (), emit (LogWarning ''No feedback notes found for analysis. Exiting.'') ?s1)"
    by blast
  then have "main ?svc ?cfg \<lparr>world = [[]], trace = []\<rparr> =
      Some (Inr (), ?s1\<lparr>trace := trace ?s1 @ [LogWarning ''No feedback notes found for analysis. Exiting.'']\<rparr>)"
    by (simp only: emit_def)
  with f show ?thesis by (simp add: exit_status_def)
qed

lemma default_blocks_exist:
  "\<exists>blocks. (case analysis of None \<Rightarrow> Some [] | Some t \<Rightarrow> split_text_for_blocks t 2900) = Some blocks"
proof (cases analysis)
  case None
  then show ?thesis by simp
next
  case (Some t)
  have "(1::int) \<le> 2900" by simp
  from split_text_terminates[OF this, of t] Some show ?thesis by simp
qed

lemma post_analysis_slack_error:
  assumes "(case analysis of None \<Rightarrow> Some [] | Some t \<Rightarrow> split_text_for_blocks t 2900) = Some blocks"
    and "chat_postMessage svc (world s) channel blocks = (SlackApiError response, w)"
    and "response_error response = Inr detail"
  shows "post_analysis_to_slack svc channel analysis s =
     Some (Inr (), \<lparr>world = w, trace = trace s @
        [ChatPostMessage channel blocks,
         LogError (''Failed to post to Slack: '' @ str_opt detail)]\<rparr>)"
  using assms by (simp add: post_analysis_to_slack_def emit_def)

lemma post_analysis_slack_error_raises:
  assumes "(case analysis of None \<Rightarrow> Some [] | Some t \<Rightarrow> split_text_for_blocks t 2900) = Some blocks"
    and "chat_postMessage svc (world s) channel blocks = (SlackApiError response, w)"
    and "response_error response = Inl e"
  shows "post_analysis_to_slack svc channel analysis s =
     Some (Inl e, \<lparr>world = w, trace = trace s @ [ChatPostMessage channel blocks]\<rparr>)"
  using assms by (simp add: post_analysis_to_slack_def emit_def)

lemma split_ok: "split_text_for_blocks ''ok'' 2900 = Some [section_block ''ok'']"
  by code_simp

lemma prompt_one_note:
  "prepare_analysis_prompt [[''content'' \<mapsto> ''slow'']] = Inr (prompt_intro [[''content'' \<mapsto> ''slow'']] @ ''- slow'')"
  by (simp add: prepare_analysis_prompt_def note_summary_def py_or_def truthy_def strip_def
      isspace_def)

lemma run_until_post:
  "main (scripted (Choices [Some ''ok'']) p)
     \<lparr>SLACK_BOT_TOKEN = ''xoxb'', PRODUCTBOARD_API_TOKEN = ''pb'',
       PRODUCT_TEAM_CHANNEL = Some ''C042'', OPENAI_API_KEY = ''sk''\<rparr>
     \<lparr>world = [[[''content'' \<mapsto> ''slow'']]], trace = []\<rparr> =
   post_analysis_to_slack (scripted (Choices [Some ''ok'']) p) (Some ''C042'') (Some ''ok'')
     \<lparr>world = [],
      trace =
        [HttpGet \<lparr>url = ''https://api.productboard.com/notes'', authorization = ''Bearer pb'',
            content_type = ''application/json'', x_version = ''1'', pageLimit = 100,
            pageOffset = 0, last_param = ''14d''\<rparr>,
         LogInfo ''Fetched 1 notes (offset=0)'',
         LogInfo ''Total notes fetched for last 14 days: 1'',
         LogInfo ''Sending batch analysis prompt to GPT...'',
         ChatCompletion ''gpt-4o'' (prompt_intro [[''content'' \<mapsto> ''slow'']] @ ''- slow''),
         LogInfo ''Received trend analysis from GPT.'']\<rparr>"
proof -
  let ?svc = "scripted (Choices [Some ''ok'']) p"
  let ?cfg = "\<lparr>SLACK_BOT_TOKEN = ''xoxb'', PRODUCTBOARD_API_TOKEN = ''pb'',
       PRODUCT_TEAM_CHANNEL = Some ''C042'', OPENAI_API_KEY = ''sk''\<rparr>"
  let ?s0 = "\<lparr>world = [[[''content'' \<mapsto> ''slow'']]], trace = []\<rparr>"
  let ?s1 = "\<lparr>world = [] :: feedback_note list list,
      trace =
        [HttpGet \<lparr>url = ''https://api.productboard.com/notes'', authorization = ''Bearer pb'',
            content_type = ''application/json'', x_version = ''1'', pageLimit = 100,
            pageOffset = 0, last_param = ''14d''\<rparr>,
         LogInfo ''Fetched 1 notes (offset=0)'',
         LogInfo ''Total notes fetched for last 14 days: 1'']\<rparr>"
  have f: "fetch_feedback_notes ?svc ?cfg 14 ?s0 = Some (Inr [[''content'' \<mapsto> ''slow'']], ?s1)"
    by (simp add: fetch_scripted_single_page notes_request_def str_int_1 str_int_0 str_int_14)
  have a: "analyze_trends_with_gpt ?svc [[''content'' \<mapsto> ''slow'']] ?s1 =
      (Inr (Some ''ok''),
       \<lparr>world = [],
        trace =
          [HttpGet \<lparr>url = ''https://api.productboard.com/notes'', authorization = ''Bearer pb'',
            content_type = ''application/json'', x_version = ''1'', pageLimit = 100,
            pageOffset = 0, last_param = ''14d''\<rparr>,
           LogInfo ''Fetched 1 notes (offset=0)'',
           LogInfo ''Total notes fetched for last 14 days: 1'',
           LogInfo ''Sending batch analysis prompt to GPT...'',
           ChatCompletion ''gpt-4o'' (prompt_intro [[''content'' \<mapsto> ''slow'']] @ ''- slow''),
           LogInfo ''Received trend analysis from GPT.'']\<rparr>)"
    by (simp add: analyze_trends_with_gpt_def prompt_one_note scripted_def emit_def)
  show ?thesis by (simp add: main_def f a)
qed

text \<open>
  Claim C8. The claim does not hold of the code for every provider-reported error. The
  handler of \<open>post_analysis_to_slack\<close> catches the \<open>SlackApiError\<close> and then evaluates
  \<open>e.response['error']\<close> for its log line. When the reply of the provider is not JSON,
  the error carries the raw response, the subscript raises \<open>KeyError\<close> inside the handler,
  nothing is logged, and the error leaves \<open>post_analysis_to_slack\<close> and \<open>main\<close>: the run
  ends with exit status 1. The same run with a parsed body whose error entry is
  \<open>channel_not_found\<close> logs that detail and ends with exit status 0, as the claim says.
\<close>

theorem notification_failure_escapes:
  "response_error RawResponse = Inl (KeyError ''error'') \<and>
   post_analysis_to_slack (scripted (Choices [Some ''ok'']) (SlackApiError RawResponse))
     (Some ''C042'') (Some ''ok'') \<lparr>world = [], trace = []\<rparr> =
     Some (Inl (KeyError ''error''),
       \<lparr>world = [], trace = [ChatPostMessage (Some ''C042'') [section_block ''ok'']]\<rparr>) \<and>
   main (scripted (Choices [Some ''ok'']) (SlackApiError RawResponse))
     \<lparr>SLACK_BOT_TOKEN = ''xoxb'', PRODUCTBOARD_API_TOKEN = ''pb'',
       PRODUCT_TEAM_CHANNEL = Some ''C042'', OPENAI_API_KEY = ''sk''\<rparr>
     \<lparr>world = [[[''content'' \<mapsto> ''slow'']]], trace = []\<rparr> =
     Some (Inl (KeyError ''error''),
       \<lparr>world = [],
        trace =
          [HttpGet \<lparr>url = ''https://api.productboard.com/notes'', authorization = ''Bearer pb'',
            content_type = ''application/json'', x_version = ''1'', pageLimit = 100,
            pageOffset = 0, last_param = ''14d''\<rparr>,
           LogInfo ''Fetched 1 notes (offset=0)'',
           LogInfo ''Total notes fetched for last 14 days: 1'',
           LogInfo ''Sending batch analysis prompt to GPT...'',
           ChatCompletion ''gpt-4o'' (prompt_intro [[''content'' \<mapsto> ''slow'']] @ ''- slow''),
           LogInfo ''Received trend analysis from GPT.'',
           ChatPostMessage (Some ''C042'') [section_block ''ok'']]\<rparr>) \<and>
   exit_status (Inl (KeyError ''error'')) = 1 \<and>
   main (scripted (Choices [Some ''ok''])
           (SlackApiError (ParsedBody (Some ''channel_not_found''))))
     \<lparr>SLACK_BOT_TOKEN = ''xoxb'', PRODUCTBOARD_API_TOKEN = ''pb'',
       PRODUCT_TEAM_CHANNEL = Some ''C042'', OPENAI_API_KEY = ''sk''\<rparr>
     \<lparr>world = [[[''content'' \<mapsto> ''slow'']]], trace = []\<rparr> =
     Some (Inr (),
       \<lparr>world = [],
        trace =
          [HttpGet \<lparr>url = ''https://api.productboard.com/notes'', authorization = ''Bearer pb'',
            content_type = ''application/json'', x_version = ''1'', pageLimit = 100,
            pageOffset = 0, last_param = ''14d''\<rparr>,
           LogInfo ''Fetched 1 notes (offset=0)'',
           LogInfo ''Total notes fetched for last 14 days: 1'',
           LogInfo ''Sending batch analysis prompt to GPT...'',
           ChatCompletion ''gpt-4o'' (prompt_intro [[''content'' \<mapsto> ''slow'']] @ ''- slow''),
           LogInfo ''Received trend analysis from GPT.'',
           ChatPostMessage (Some ''C042'') [section_block ''ok''],
           LogError ''Failed to post to Slack: channel_not_found'']\<rparr>) \<and>
   exit_status (Inr ()) = 0"
proof (intro conjI)
  show r: "response_error RawResponse = Inl (KeyError ''error'')"
    by (simp add: response_error_def)
  have b: "(case Some ''ok'' of None \<Rightarrow> Some [] | Some t \<Rightarrow> split_text_for_blocks t 2900)
      = Some [section_block ''ok'']"
    by (simp add: split_ok)
  have g: "\<And>p (w :: feedback_note list list) tr.
      chat_postMessage (scripted (Choices [Some ''ok'']) p) (world \<lparr>world = w, trace = tr\<rparr>)
        (Some ''C042'') [section_block ''ok''] = (p, w)"
    by (simp add: scripted_def)
  show "post_analysis_to_slack (scripted (Choices [Some ''ok'']) (SlackApiError RawResponse))
     (Some ''C042'') (Some ''ok'') \<lparr>world = [], trace = []\<rparr> =
     Some (Inl (KeyError ''error''),
       \<lparr>world = [], trace = [ChatPostMessage (Some ''C042'') [section_block ''ok'']]\<rparr>)"
    using post_analysis_slack_error_raises[OF b g r] by simp
  show "main (scripted (Choices [Some ''ok'']) (SlackApiError RawResponse))
     \<lparr>SLACK_BOT_TOKEN = ''xoxb'', PRODUCTBOARD_API_TOKEN = ''pb'',
       PRODUCT_TEAM_CHANNEL = Some ''C042'', OPENAI_API_KEY = ''sk''\<rparr>
     \<lparr>world = [[[''content'' \<mapsto> ''slow'']]], trace = []\<rparr> =
     Some (Inl (KeyError ''error''),
       \<lparr>world = [],
        trace =
          [HttpGet \<lparr>url = ''https://api.productboard.com/notes'', authorization = ''Bearer pb'',
            content_type = ''application/json'', x_version = ''1'', pageLimit = 100,
            pageOffset = 0, last_param = ''14d''\<rparr>,
           LogInfo ''Fetched 1 notes (offset=0)'',
           LogInfo ''Total notes fetched for last 14 days: 1'',
           LogInfo ''Sending batch analysis prompt to GPT...'',
           ChatCompletion ''gpt-4o'' (prompt_intro [[''content'' \<mapsto> ''slow'']] @ ''- slow''),
           LogInfo ''Received trend analysis from GPT.'',
           ChatPostMessage (Some ''C042'') [section_block ''ok'']]\<rparr>)"
    unfolding run_until_post using post_analysis_slack_error_raises[OF b g r] by simp
  show "exit_status (Inl (KeyError ''error'')) = 1" by (simp add: exit_status_def)
  have d: "response_error (ParsedBody (Some ''channel_not_found'')) = Inr (Some ''channel_not_found'')"
    by (simp add: response_error_def)
  show "main (scripted (Choices [Some ''ok''])
           (SlackApiError (ParsedBody (Some ''channel_not_found''))))
     \<lparr>SLACK_BOT_TOKEN = ''xoxb'', PRODUCTBOARD_API_TOKEN = ''pb'',
       PRODUCT_TEAM_CHANNEL = Some ''C042'', OPENAI_API_KEY = ''sk''\<rparr>
     \<lparr>world = [[[''content'' \<mapsto> ''slow'']]], trace = []\<rparr> =
     Some (Inr (),
       \<lparr>world = [],
        trace =
          [HttpGet \<lparr>url = ''https://api.productboard.com/notes'', authorization = ''Bearer pb'',
            content_type = ''application/json'', x_version = ''1'', pageLimit = 100,
            pageOffset = 0, last_param = ''14d''\<rparr>,
           LogInfo ''Fetched 1 notes (offset=0)'',
           LogInfo ''Total notes fetched for last 14 days: 1'',
           LogInfo ''Sending batch analysis prompt to GPT...'',
           ChatCompletion ''gpt-4o'' (prompt_intro [[''content'' \<mapsto> ''slow'']] @ ''- slow''),
           LogInfo ''Received trend analysis from GPT.'',
           ChatPostMessage (Some ''C042'') [section_block ''ok''],
           LogError ''Failed to post to Slack: channel_not_found'']\<rparr>)"
    unfolding run_until_post using post_analysis_slack_error[OF b g d] by (simp add: str_opt_def)
  show "exit_status (Inr ()) = 0" by (simp add: exit_status_def)
qed

section \<open>Properties of the configuration\<close>

lemma load_config_cases:
  "load_config e =
     (case e ''SLACK_BOT_TOKEN'' of
        None \<Rightarrow> Inl (KeyError ''SLACK_BOT_TOKEN'')
      | Some a \<Rightarrow>
     (case e ''PRODUCTBOARD_API_TOKEN'' of
        None \<Rightarrow> Inl (KeyError ''PRODUCTBOARD_API_TOKEN'')
      | Some b \<Rightarrow>
     (case e ''OPENAI_API_KEY'' of
        None \<Rightarrow> Inl (KeyError ''OPENAI_API_KEY'')
      | Some c \<Rightarrow>
          Inr \<lparr>SLACK_BOT_TOKEN = a, PRODUCTBOARD_API_TOKEN = b,
               PRODUCT_TEAM_CHANNEL = e ''PRODUCT_TEAM_CHANNEL'', OPENAI_API_KEY = c\<rparr>)))"
  by (simp add: load_config_def environ_item_def Let_def split: option.splits)

text \<open>
  Claim C4, as amended. At startup the program reads three required credentials
  (\<open>SLACK_BOT_TOKEN\<close>, \<open>PRODUCTBOARD_API_TOKEN\<close>, \<open>OPENAI_API_KEY\<close>) and one optional
  channel identifier (\<open>PRODUCT_TEAM_CHANNEL\<close>) from the process-wide configuration. If one
  of the three credentials is missing, the program aborts with a \<open>KeyError\<close> for a missing
  credential and exit status 1, before any call or log: the trace is empty and the world
  is untouched. If the three are present the configuration is read, with the channel
  identifier as it is found (\<open>None\<close> when missing), and \<open>main\<close> runs.
\<close>

theorem missing_credential_aborts:
  "(load_dotenv dotenv env ''SLACK_BOT_TOKEN'' = None \<or>
    load_dotenv dotenv env ''PRODUCTBOARD_API_TOKEN'' = None \<or>
    load_dotenv dotenv env ''OPENAI_API_KEY'' = None \<longrightarrow>
    (\<exists>k. program svc dotenv env w = Some (Inl (KeyError k), \<lparr>world = w, trace = []\<rparr>) \<and>
         exit_status (Inl (KeyError k)) = 1 \<and>
         k \<in> {''SLACK_BOT_TOKEN'', ''PRODUCTBOARD_API_TOKEN'', ''OPENAI_API_KEY''} \<and>
         load_dotenv dotenv env k = None)) \<and>
   (load_dotenv dotenv env ''SLACK_BOT_TOKEN'' = Some a \<and>
    load_dotenv dotenv env ''PRODUCTBOARD_API_TOKEN'' = Some b \<and>
    load_dotenv dotenv env ''OPENAI_API_KEY'' = Some c \<longrightarrow>
    load_config (load_dotenv dotenv env) =
      Inr \<lparr>SLACK_BOT_TOKEN = a, PRODUCTBOARD_API_TOKEN = b,
           PRODUCT_TEAM_CHANNEL = load_dotenv dotenv env ''PRODUCT_TEAM_CHANNEL'',
           OPENAI_API_KEY = c\<rparr> \<and>
    program svc dotenv env w =
      main svc \<lparr>SLACK_BOT_TOKEN = a, PRODUCTBOARD_API_TOKEN = b,
           PRODUCT_TEAM_CHANNEL = load_dotenv dotenv env ''PRODUCT_TEAM_CHANNEL'',
           OPENAI_API_KEY = c\<rparr> \<lparr>world = w, trace = []\<rparr>)"
proof (intro conjI impI)
  let ?e = "load_dotenv dotenv env"
  assume m: "?e ''SLACK_BOT_TOKEN'' = None \<or> ?e ''PRODUCTBOARD_API_TOKEN'' = None \<or>
    ?e ''OPENAI_API_KEY'' = None"
  have x: "\<And>k. exit_status (Inl (KeyError k)) = 1" by (simp add: exit_status_def)
  show "\<exists>k. program svc dotenv env w = Some (Inl (KeyError k), \<lparr>world = w, trace = []\<rparr>) \<and>
         exit_status (Inl (KeyError k)) = 1 \<and>
         k \<in> {''SLACK_BOT_TOKEN'', ''PRODUCTBOARD_API_TOKEN'', ''OPENAI_API_KEY''} \<and>
         ?e k = None"
  proof (cases "?e ''SLACK_BOT_TOKEN''")
    case None
    then have "program svc dotenv env w =
        Some (Inl (KeyError ''SLACK_BOT_TOKEN''), \<lparr>world = w, trace = []\<rparr>)"
      by (simp add: program_def load_config_cases)
    with None x show ?thesis by (intro exI[of _ "''SLACK_BOT_TOKEN''"]) simp
  next
    case s: (Some a)
    show ?thesis
    proof (cases "?e ''PRODUCTBOARD_API_TOKEN''")
      case None
      with s have "program svc dotenv env w =
          Some (Inl (KeyError ''PRODUCTBOARD_API_TOKEN''), \<lparr>world = w, trace = []\<rparr>)"
        by (simp add: program_def load_config_cases)
      with None x show ?thesis by (intro exI[of _ "''PRODUCTBOARD_API_TOKEN''"]) simp
    next
      case p: (Some b)
      with s m have n: "?e ''OPENAI_API_KEY'' = None" by simp
      with s p have "program svc dotenv env w =
          Some (Inl (KeyError ''OPENAI_API_KEY''), \<lparr>world = w, trace = []\<rparr>)"
        by (simp add: program_def load_config_cases)
      with n x show ?thesis by (intro exI[of _ "''OPENAI_API_KEY''"]) simp
    qed
  qed
next
  let ?e = "load_dotenv dotenv env"
  assume p: "?e ''SLACK_BOT_TOKEN'' = Some a \<and> ?e ''PRODUCTBOARD_API_TOKEN'' = Some b \<and>
    ?e ''OPENAI_API_KEY'' = Some c"
  then show l: "load_config ?e =
      Inr \<lparr>SLACK_BOT_TOKEN = a, PRODUCTBOARD_API_TOKEN = b,
           PRODUCT_TEAM_CHANNEL = ?e ''PRODUCT_TEAM_CHANNEL'', OPENAI_API_KEY = c\<rparr>"
    by (simp add: load_config_cases)
  then show "program svc dotenv env w =
      main svc \<lparr>SLACK_BOT_TOKEN = a, PRODUCTBOARD_API_TOKEN = b,
           PRODUCT_TEAM_CHANNEL = ?e ''PRODUCT_TEAM_CHANNEL'', OPENAI_API_KEY = c\<rparr>
        \<lparr>world = w, trace = []\<rparr>"
    by (simp add: program_def)
qed

text \<open>
  An environment without \<open>OPENAI_API_KEY\<close> aborts with that \<open>KeyError\<close>; an environment with
  the three credentials and no channel identifier gives a configuration whose channel is
  \<open>None\<close>.
\<close>

theorem missing_credential_aborts_witness:
  "load_dotenv Map.empty [''SLACK_BOT_TOKEN'' \<mapsto> ''xoxb'', ''PRODUCTBOARD_API_TOKEN'' \<mapsto> ''pb'', ''PRODUCT_TEAM_CHANNEL'' \<mapsto> ''C042''] ''OPENAI_API_KEY'' = None \<and>
   (\<exists>k. program (scripted (Choices [Some ''ok'']) (SlackApiError (ParsedBody (Some ''channel_not_found'')))) Map.empty [''SLACK_BOT_TOKEN'' \<mapsto> ''xoxb'', ''PRODUCTBOARD_API_TOKEN'' \<mapsto> ''pb'', ''PRODUCT_TEAM_CHANNEL'' \<mapsto> ''C042''] [[[''content'' \<mapsto> ''slow'']]] =
            Some (Inl (KeyError k), \<lparr>world = [[[''content'' \<mapsto> ''slow'']]], trace = []\<rparr>) \<and>
        exit_status (Inl (KeyError k)) = 1 \<and>
        k \<in> {''SLACK_BOT_TOKEN'', ''PRODUCTBOARD_API_TOKEN'', ''OPENAI_API_KEY''} \<and>
        load_dotenv Map.empty [''SLACK_BOT_TOKEN'' \<mapsto> ''xoxb'', ''PRODUCTBOARD_API_TOKEN'' \<mapsto> ''pb'', ''PRODUCT_TEAM_CHANNEL'' \<mapsto> ''C042''] k = None) \<and>
   program (scripted (Choices [Some ''ok'']) (SlackApiError (ParsedBody (Some ''channel_not_found'')))) Map.empty [''SLACK_BOT_TOKEN'' \<mapsto> ''xoxb'', ''PRODUCTBOARD_API_TOKEN'' \<mapsto> ''pb'', ''PRODUCT_TEAM_CHANNEL'' \<mapsto> ''C042''] [[[''content'' \<mapsto> ''slow'']]] =
     Some (Inl (KeyError ''OPENAI_API_KEY''), \<lparr>world = [[[''content'' \<mapsto> ''slow'']]], trace = []\<rparr>) \<and>
   load_dotenv Map.empty [''SLACK_BOT_TOKEN'' \<mapsto> ''xoxb'', ''PRODUCTBOARD_API_TOKEN'' \<mapsto> ''pb'', ''OPENAI_API_KEY'' \<mapsto> ''sk''] ''SLACK_BOT_TOKEN'' = Some ''xoxb'' \<and>
   load_dotenv Map.empty [''SLACK_BOT_TOKEN'' \<mapsto> ''xoxb'', ''PRODUCTBOARD_API_TOKEN'' \<mapsto> ''pb'', ''OPENAI_API_KEY'' \<mapsto> ''sk''] ''PRODUCTBOARD_API_TOKEN'' = Some ''pb'' \<and>
   load_dotenv Map.empty [''SLACK_BOT_TOKEN'' \<mapsto> ''xoxb'', ''PRODUCTBOARD_API_TOKEN'' \<mapsto> ''pb'', ''OPENAI_API_KEY'' \<mapsto> ''sk''] ''OPENAI_API_KEY'' = Some ''sk'' \<and>
   load_config (load_dotenv Map.empty [''SLACK_BOT_TOKEN'' \<mapsto> ''xoxb'', ''PRODUCTBOARD_API_TOKEN'' \<mapsto> ''pb'', ''OPENAI_API_KEY'' \<mapsto> ''sk'']) = Inr \<lparr>SLACK_BOT_TOKEN = ''xoxb'', PRODUCTBOARD_API_TOKEN = ''pb'', PRODUCT_TEAM_CHANNEL = None, OPENAI_API_KEY = ''sk''\<rparr>"
proof -
  have n: "load_dotenv Map.empty [''SLACK_BOT_TOKEN'' \<mapsto> ''xoxb'', ''PRODUCTBOARD_API_TOKEN'' \<mapsto> ''pb'', ''PRODUCT_TEAM_CHANNEL'' \<mapsto> ''C042''] ''OPENAI_API_KEY'' = None"
    by (simp add: load_dotenv_def)
  from missing_credential_aborts[of Map.empty "[''SLACK_BOT_TOKEN'' \<mapsto> ''xoxb'', ''PRODUCTBOARD_API_TOKEN'' \<mapsto> ''pb'', ''PRODUCT_TEAM_CHANNEL'' \<mapsto> ''C042'']" "scripted (Choices [Some ''ok'']) (SlackApiError (ParsedBody (Some ''channel_not_found'')))" "[[[''content'' \<mapsto> ''slow'']]]"] n
  have c1: "\<exists>k. program (scripted (Choices [Some ''ok'']) (SlackApiError (ParsedBody (Some ''channel_not_found'')))) Map.empty [''SLACK_BOT_TOKEN'' \<mapsto> ''xoxb'', ''PRODUCTBOARD_API_TOKEN'' \<mapsto> ''pb'', ''PRODUCT_TEAM_CHANNEL'' \<mapsto> ''C042''] [[[''content'' \<mapsto> ''slow'']]] =
            Some (Inl (KeyError k), \<lparr>world = [[[''content'' \<mapsto> ''slow'']]], trace = []\<rparr>) \<and>
        exit_status (Inl (KeyError k)) = 1 \<and>
        k \<in> {''SLACK_BOT_TOKEN'', ''PRODUCTBOARD_API_TOKEN'', ''OPENAI_API_KEY''} \<and>
        load_dotenv Map.empty [''SLACK_BOT_TOKEN'' \<mapsto> ''xoxb'', ''PRODUCTBOARD_API_TOKEN'' \<mapsto> ''pb'', ''PRODUCT_TEAM_CHANNEL'' \<mapsto> ''C042''] k = None"
    by blast
  have c2: "program (scripted (Choices [Some ''ok'']) (SlackApiError (ParsedBody (Some ''channel_not_found'')))) Map.empty [''SLACK_BOT_TOKEN'' \<mapsto> ''xoxb'', ''PRODUCTBOARD_API_TOKEN'' \<mapsto> ''pb'', ''PRODUCT_TEAM_CHANNEL'' \<mapsto> ''C042''] [[[''content'' \<mapsto> ''slow'']]] =
     Some (Inl (KeyError ''OPENAI_API_KEY''), \<lparr>world = [[[''content'' \<mapsto> ''slow'']]], trace = []\<rparr>)"
    by (simp add: program_def load_config_cases load_dotenv_def)
  have p: "load_dotenv Map.empty [''SLACK_BOT_TOKEN'' \<mapsto> ''xoxb'', ''PRODUCTBOARD_API_TOKEN'' \<mapsto> ''pb'', ''OPENAI_API_KEY'' \<mapsto> ''sk''] ''SLACK_BOT_TOKEN'' = Some ''xoxb'' \<and>
    load_dotenv Map.empty [''SLACK_BOT_TOKEN'' \<mapsto> ''xoxb'', ''PRODUCTBOARD_API_TOKEN'' \<mapsto> ''pb'', ''OPENAI_API_KEY'' \<mapsto> ''sk''] ''PRODUCTBOARD_API_TOKEN'' = Some ''pb'' \<and>
    load_dotenv Map.empty [''SLACK_BOT_TOKEN'' \<mapsto> ''xoxb'', ''PRODUCTBOARD_API_TOKEN'' \<mapsto> ''pb'', ''OPENAI_API_KEY'' \<mapsto> ''sk''] ''OPENAI_API_KEY'' = Some ''sk''"
    by (simp add: load_dotenv_def)
  have ch: "load_dotenv Map.empty [''SLACK_BOT_TOKEN'' \<mapsto> ''xoxb'', ''PRODUCTBOARD_API_TOKEN'' \<mapsto> ''pb'', ''OPENAI_API_KEY'' \<mapsto> ''sk''] ''PRODUCT_TEAM_CHANNEL'' = None"
    by (simp add: load_dotenv_def)
  from missing_credential_aborts[where dotenv = Map.empty and env = "[''SLACK_BOT_TOKEN'' \<mapsto> ''xoxb'', ''PRODUCTBOARD_API_TOKEN'' \<mapsto> ''pb'', ''OPENAI_API_KEY'' \<mapsto> ''sk'']"
      and a = "''xoxb''" and b = "''pb''" and c = "''sk''"
      and svc = "scripted (Choices [Some ''ok'']) (SlackApiError (ParsedBody (Some ''channel_not_found'')))" and w = "[[[''content'' \<mapsto> ''slow'']]]"] p
  have "load_config (load_dotenv Map.empty [''SLACK_BOT_TOKEN'' \<mapsto> ''xoxb'', ''PRODUCTBOARD_API_TOKEN'' \<mapsto> ''pb'', ''OPENAI_API_KEY'' \<mapsto> ''sk'']) =
      Inr \<lparr>SLACK_BOT_TOKEN = ''xoxb'', PRODUCTBOARD_API_TOKEN = ''pb'',
           PRODUCT_TEAM_CHANNEL = load_dotenv Map.empty [''SLACK_BOT_TOKEN'' \<mapsto> ''xoxb'', ''PRODUCTBOARD_API_TOKEN'' \<mapsto> ''pb'', ''OPENAI_API_KEY'' \<mapsto> ''sk''] ''PRODUCT_TEAM_CHANNEL'',
           OPENAI_API_KEY = ''sk''\<rparr>"
    by blast
  then have c3: "load_config (load_dotenv Map.empty [''SLACK_BOT_TOKEN'' \<mapsto> ''xoxb'', ''PRODUCTBOARD_API_TOKEN'' \<mapsto> ''pb'', ''OPENAI_API_KEY'' \<mapsto> ''sk'']) = Inr \<lparr>SLACK_BOT_TOKEN = ''xoxb'', PRODUCTBOARD_API_TOKEN = ''pb'', PRODUCT_TEAM_CHANNEL = None, OPENAI_API_KEY = ''sk''\<rparr>"
    by (simp only: ch)
  from n c1 c2 p c3 show ?thesis by (intro conjI) (elim conjE, assumption)+
qed

text \<open>
  The claim as stated fails for the channel identifier. With the three credentials set
  and \<open>PRODUCT_TEAM_CHANNEL\<close> missing, the program does not abort: it fetches, calls the
  completion service and posts to the channel \<open>None\<close>.
\<close>

theorem missing_credential_aborts_counterexample:
  "load_dotenv Map.empty [''SLACK_BOT_TOKEN'' \<mapsto> ''xoxb'', ''PRODUCTBOARD_API_TOKEN'' \<mapsto> ''pb'', ''OPENAI_API_KEY'' \<mapsto> ''sk''] ''PRODUCT_TEAM_CHANNEL'' = None \<and>
   program (scripted (Choices [Some ''ok'']) (SlackApiError (ParsedBody (Some ''channel_not_found'')))) Map.empty [''SLACK_BOT_TOKEN'' \<mapsto> ''xoxb'', ''PRODUCTBOARD_API_TOKEN'' \<mapsto> ''pb'', ''OPENAI_API_KEY'' \<mapsto> ''sk''] [[[''content'' \<mapsto> ''slow'']]] =
     Some (Inr (),
       \<lparr>world = [],
        trace =
          [HttpGet \<lparr>url = ''https://api.productboard.com/notes'', authorization = ''Bearer pb'', content_type = ''application/json'', x_version = ''1'', pageLimit = 100, pageOffset = 0, last_param = ''14d''\<rparr>,
           LogInfo ''Fetched 1 notes (offset=0)'',
           LogInfo ''Total notes fetched for last 14 days: 1'',
           LogInfo ''Sending batch analysis prompt to GPT...'',
           ChatCompletion ''gpt-4o'' (prompt_intro [[''content'' \<mapsto> ''slow'']] @ ''- slow''),
           LogInfo ''Received trend analysis from GPT.'',
           ChatPostMessage None [section_block ''ok''],
           LogError ''Failed to post to Slack: channel_not_found'']\<rparr>)"
proof
  show "load_dotenv Map.empty [''SLACK_BOT_TOKEN'' \<mapsto> ''xoxb'', ''PRODUCTBOARD_API_TOKEN'' \<mapsto> ''pb'', ''OPENAI_API_KEY'' \<mapsto> ''sk''] ''PRODUCT_TEAM_CHANNEL'' = None"
    by (simp add: load_dotenv_def)
  let ?svc = "scripted (Choices [Some ''ok'']) (SlackApiError (ParsedBody (Some ''channel_not_found'')))"
  let ?s0 = "\<lparr>world = [[[''content'' \<mapsto> ''slow'']]], trace = []\<rparr>"
  let ?s1 = "\<lparr>world = [] :: feedback_note list list,
      trace = [HttpGet \<lparr>url = ''https://api.productboard.com/notes'', authorization = ''Bearer pb'', content_type = ''application/json'', x_version = ''1'', pageLimit = 100, pageOffset = 0, last_param = ''14d''\<rparr>,
         LogInfo ''Fetched 1 notes (offset=0)'',
         LogInfo ''Total notes fetched for last 14 days: 1'']\<rparr>"
  let ?s2 = "\<lparr>world = [] :: feedback_note list list,
      trace = [HttpGet \<lparr>url = ''https://api.productboard.com/notes'', authorization = ''Bearer pb'', content_type = ''application/json'', x_version = ''1'', pageLimit = 100, pageOffset = 0, last_param = ''14d''\<rparr>,
         LogInfo ''Fetched 1 notes (offset=0)'',
         LogInfo ''Total notes fetched for last 14 days: 1'',
         LogInfo ''Sending batch analysis prompt to GPT...'',
         ChatCompletion ''gpt-4o'' (prompt_intro [[''content'' \<mapsto> ''slow'']] @ ''- slow''),
         LogInfo ''Received trend analysis from GPT.'']\<rparr>"
  have c: "load_config (load_dotenv Map.empty [''SLACK_BOT_TOKEN'' \<mapsto> ''xoxb'', ''PRODUCTBOARD_API_TOKEN'' \<mapsto> ''pb'', ''OPENAI_API_KEY'' \<mapsto> ''sk'']) = Inr \<lparr>SLACK_BOT_TOKEN = ''xoxb'', PRODUCTBOARD_API_TOKEN = ''pb'', PRODUCT_TEAM_CHANNEL = None, OPENAI_API_KEY = ''sk''\<rparr>"
    by (simp add: load_config_cases load_dotenv_def)
  have f: "fetch_feedback_notes ?svc \<lparr>SLACK_BOT_TOKEN = ''xoxb'', PRODUCTBOARD_API_TOKEN = ''pb'', PRODUCT_TEAM_CHANNEL = None, OPENAI_API_KEY = ''sk''\<rparr> 14 ?s0 = Some (Inr [[''content'' \<mapsto> ''slow'']], ?s1)"
    by (simp add: fetch_scripted_single_page notes_request_def str_int_1 str_int_0 str_int_14)
  have a: "analyze_trends_with_gpt ?svc [[''content'' \<mapsto> ''slow'']] ?s1 = (Inr (Some ''ok''), ?s2)"
    by (simp add: analyze_trends_with_gpt_def prompt_one_note scripted_def emit_def)
  have p: "post_analysis_to_slack ?svc None (Some ''ok'') ?s2 =
      Some (Inr (), \<lparr>world = [], trace = trace ?s2 @
        [ChatPostMessage None [section_block ''ok''],
         LogError (''Failed to post to Slack: '' @ str_opt (Some ''channel_not_found''))]\<rparr>)"
    by (rule post_analysis_slack_error[where response = "ParsedBody (Some ''channel_not_found'')"])
      (simp_all add: split_ok scripted_def response_error_def)
  have "program ?svc Map.empty [''SLACK_BOT_TOKEN'' \<mapsto> ''xoxb'', ''PRODUCTBOARD_API_TOKEN'' \<mapsto> ''pb'', ''OPENAI_API_KEY'' \<mapsto> ''sk''] [[[''content'' \<mapsto> ''slow'']]] = main ?svc \<lparr>SLACK_BOT_TOKEN = ''xoxb'', PRODUCTBOARD_API_TOKEN = ''pb'', PRODUCT_TEAM_CHANNEL = None, OPENAI_API_KEY = ''sk''\<rparr> ?s0"
    by (simp only: program_def c sum.case)
  also have "\<dots> = post_analysis_to_slack ?svc None (Some ''ok'') ?s2"
    by (simp add: main_def f a)
  finally show "program ?svc Map.empty [''SLACK_BOT_TOKEN'' \<mapsto> ''xoxb'', ''PRODUCTBOARD_API_TOKEN'' \<mapsto> ''pb'', ''OPENAI_API_KEY'' \<mapsto> ''sk''] [[[''content'' \<mapsto> ''slow'']]] =
     Some (Inr (),
       \<lparr>world = [],
        trace =
          [HttpGet \<lparr>url = ''https://api.productboard.com/notes'', authorization = ''Bearer pb'', content_type = ''application/json'', x_version = ''1'', pageLimit = 100, pageOffset = 0, last_param = ''14d''\<rparr>,
           LogInfo ''Fetched 1 notes (offset=0)'',
           LogInfo ''Total notes fetched for last 14 days: 1'',
           LogInfo ''Sending batch analysis prompt to GPT...'',
           ChatCompletion ''gpt-4o'' (prompt_intro [[''content'' \<mapsto> ''slow'']] @ ''- slow''),
           LogInfo ''Received trend analysis from GPT.'',
           ChatPostMessage None [section_block ''ok''],
           LogError ''Failed to post to Slack: channel_not_found'']\<rparr>)"
    by (simp add: p str_opt_def)
qed

end
